theory Spec2Isabelle
  imports Main
begin

section \<open>Python values used by the byre sources\<close>

text \<open>
  The theory embeds the parts of \<^verbatim>\<open>src/byre/bt.py\<close> (the qBittorrent wrapper
  \<^verbatim>\<open>BtClient\<close>) and \<^verbatim>\<open>src/byre/api.py\<close> (the site scraper \<^verbatim>\<open>ByrApi\<close>)
  that the specification talks about.

  Strings are HOL strings; a character beyond ASCII is the sequence of its UTF-8 bytes.
  The character classes of Python (\<^verbatim>\<open>\w\<close>, \<^verbatim>\<open>\d\<close>, \<^verbatim>\<open>str.isdigit\<close>,
  \<^verbatim>\<open>str.strip\<close>, the digits and blanks of \<^verbatim>\<open>int()\<close>) are those of ASCII. Python's
  classes are those of Unicode, so a function that classifies characters agrees with
  the source on the texts whose classified part is ASCII; the statements about such a
  function restrict that part to ASCII, by the hypothesis \<open>ascii_str\<close> or by a class of
  ASCII characters. Exceptions are values of the type \<open>error\<close>, one constructor per
  exception class; messages are not modelled.
\<close>

datatype error =
    ValueError
  | KeyError
  | IndexError
  | AttributeError
  | StopIteration
  | TypeError
  | ConnectionError

definition ascii_str :: "string \<Rightarrow> bool" where
  "ascii_str s \<longleftrightarrow> list_all (\<lambda>c. (of_char c :: nat) < 128) s"

definition isdigit_chr :: "char \<Rightarrow> bool" where
  "isdigit_chr c \<longleftrightarrow> 48 \<le> (of_char c :: nat) \<and> (of_char c :: nat) \<le> 57"

definition isalpha_chr :: "char \<Rightarrow> bool" where
  "isalpha_chr c \<longleftrightarrow>
     (65 \<le> (of_char c :: nat) \<and> (of_char c :: nat) \<le> 90) \<or>
     (97 \<le> (of_char c :: nat) \<and> (of_char c :: nat) \<le> 122)"

definition isalnum_chr :: "char \<Rightarrow> bool" where
  "isalnum_chr c \<longleftrightarrow> isalpha_chr c \<or> isdigit_chr c"

text \<open>The class \<^verbatim>\<open>\w\<close> of the \<^verbatim>\<open>re\<close> module: alphanumeric or underscore.\<close>

definition isword_chr :: "char \<Rightarrow> bool" where
  "isword_chr c \<longleftrightarrow> isalnum_chr c \<or> c = CHR ''_''"

text \<open>White space as \<^verbatim>\<open>str.strip()\<close> sees it (ASCII part): TAB, LF, VT, FF, CR,
  the separators FS, GS, RS, US and the blank.\<close>

definition isspace_chr :: "char \<Rightarrow> bool" where
  "isspace_chr c \<longleftrightarrow>
     (9 \<le> (of_char c :: nat) \<and> (of_char c :: nat) \<le> 13) \<or>
     (28 \<le> (of_char c :: nat) \<and> (of_char c :: nat) \<le> 32)"

text \<open>\<^verbatim>\<open>str.isdigit()\<close> and \<^verbatim>\<open>str.isalnum()\<close>: false on the empty string.\<close>

definition isdigit_str :: "string \<Rightarrow> bool" where
  "isdigit_str s \<longleftrightarrow> s \<noteq> [] \<and> list_all isdigit_chr s"

definition isalnum_str :: "string \<Rightarrow> bool" where
  "isalnum_str s \<longleftrightarrow> s \<noteq> [] \<and> list_all isalnum_chr s"

definition strip :: "string \<Rightarrow> string" where
  "strip s = rev (dropWhile isspace_chr (rev (dropWhile isspace_chr s)))"

text \<open>
  The blanks that \<^verbatim>\<open>int()\<close> skips around the literal of an ASCII string: TAB, LF, VT,
  FF, CR and the blank, without the four separators.
\<close>

definition isblank_int_chr :: "char \<Rightarrow> bool" where
  "isblank_int_chr c \<longleftrightarrow>
     (9 \<le> (of_char c :: nat) \<and> (of_char c :: nat) \<le> 13) \<or> (of_char c :: nat) = 32"

definition strip_int :: "string \<Rightarrow> string" where
  "strip_int s = rev (dropWhile isblank_int_chr (rev (dropWhile isblank_int_chr s)))"

subsection \<open>Integers and their decimal text\<close>

definition digit_chr :: "nat \<Rightarrow> char" where
  "digit_chr d = char_of (48 + d)"

definition digit_val :: "char \<Rightarrow> nat" where
  "digit_val c = of_char c - 48"

text \<open>\<^verbatim>\<open>str(n)\<close>, as the f-string \<^verbatim>\<open>f"{n}"\<close> renders an \<^verbatim>\<open>int\<close>.\<close>

fun str_nat :: "nat \<Rightarrow> string" where
  "str_nat n =
     (if n < 10 then [digit_chr n] else str_nat (n div 10) @ [digit_chr (n mod 10)])"

definition str_int :: "int \<Rightarrow> string" where
  "str_int i = (if i < 0 then CHR ''-'' # str_nat (nat (- i)) else str_nat (nat i))"

definition value_of_digits :: "string \<Rightarrow> nat" where
  "value_of_digits s = foldl (\<lambda>a c. 10 * a + digit_val c) 0 s"

text \<open>
  The digits of an \<^verbatim>\<open>int()\<close> literal: decimal digits, single underscores allowed
  between two digits. The result is the digit string without the underscores.
\<close>

fun digits_us :: "string \<Rightarrow> string option" where
  "digits_us [] = None"
| "digits_us [c] = (if isdigit_chr c then Some [c] else None)"
| "digits_us (c # d # r) =
     (if \<not> isdigit_chr c then None
      else if d = CHR ''_'' then map_option (Cons c) (digits_us r)
      else map_option (Cons c) (digits_us (d # r)))"

text \<open>
  \<^verbatim>\<open>int(s)\<close> in base ten on an ASCII string: blanks around, an optional sign, the
  digits; \<open>None\<close> stands for the \<^verbatim>\<open>ValueError\<close>.
\<close>

definition py_int :: "string \<Rightarrow> int option" where
  "py_int s =
     (case strip_int s of
        [] \<Rightarrow> None
      | c # r \<Rightarrow>
          if c = CHR ''-'' then map_option (\<lambda>ds. - int (value_of_digits ds)) (digits_us r)
          else if c = CHR ''+'' then map_option (\<lambda>ds. int (value_of_digits ds)) (digits_us r)
          else map_option (\<lambda>ds. int (value_of_digits ds)) (digits_us (c # r)))"

text \<open>
  Modelled from the spec: \<^verbatim>\<open>utils.int_or\<close> is imported by both sources and is not
  among them. The specification describes its use as ``unparseable/missing cell
  \<open>\<rightarrow>\<close> 0'' and ``the numeric id parses to a positive integer''; it is taken as
  \<^verbatim>\<open>int(s)\<close> with the default returned in place of the \<^verbatim>\<open>ValueError\<close>. The calls
  with one argument use the default 0.
\<close>

definition int_or :: "string \<Rightarrow> int \<Rightarrow> int" where
  "int_or s d = (case py_int s of Some n \<Rightarrow> n | None \<Rightarrow> d)"

section \<open>The torrent records of \<^verbatim>\<open>byre.clients.data\<close>\<close>

text \<open>
  The classes \<^verbatim>\<open>TorrentInfo\<close>, \<^verbatim>\<open>TypedTorrent\<close> and \<^verbatim>\<open>LocalTorrent\<close> are
  declared outside the sources at hand; the records carry the fields the sources read
  and write. \<^verbatim>\<open>LocalTorrent(t, seed_id, site, info)\<close> is built positionally.
\<close>

record TorrentInfo =
  title :: string
  seed_id :: int
  site :: string
  category :: string
  second_category :: string

record TypedTorrent =
  name :: string
  hash :: string
  save_path :: string

record LocalTorrent =
  torrent :: TypedTorrent
  local_seed_id :: int
  local_site :: string
  info :: "TorrentInfo option"

section \<open>\<^verbatim>\<open>BtClient._generate_rename\<close> and \<^verbatim>\<open>BtClient.local_torrent_from\<close>\<close>

definition generate_rename :: "TorrentInfo \<Rightarrow> string" where
  "generate_rename i = ''['' @ site i @ ''-'' @ str_int (seed_id i) @ '']'' @ title i"

text \<open>
  \<^verbatim>\<open>re.match("^\\[(\\w+)-\\d+]", name)\<close>, returning group 1. Both repetitions are
  greedy, and neither \<^verbatim>\<open>-\<close> nor \<^verbatim>\<open>]\<close> belongs to the class repeated before it, so
  backtracking never finds a match that the longest run does not give: the matcher takes
  the longest run of word characters and the longest run of digits.
\<close>

definition re_match_name :: "string \<Rightarrow> string option" where
  "re_match_name nm =
     (case nm of
        [] \<Rightarrow> None
      | b # r0 \<Rightarrow>
          if b \<noteq> CHR ''['' then None
          else let w = takeWhile isword_chr r0; r1 = dropWhile isword_chr r0 in
            if w = [] then None
            else (case r1 of
                [] \<Rightarrow> None
              | h # r2 \<Rightarrow>
                  if h \<noteq> CHR ''-'' then None
                  else let d = takeWhile isdigit_chr r2; r3 = dropWhile isdigit_chr r2 in
                    if d = [] then None
                    else (case r3 of
                        [] \<Rightarrow> None
                      | k # _ \<Rightarrow> if k = CHR '']'' then Some w else None)))"

text \<open>\<^verbatim>\<open>name.index("]")\<close>: the position of the first occurrence, or \<^verbatim>\<open>ValueError\<close>.\<close>

fun str_index :: "string \<Rightarrow> char \<Rightarrow> error + nat" where
  "str_index [] c = Inl ValueError"
| "str_index (x # xs) c =
     (if x = c then Inr 0
      else (case str_index xs c of Inl e \<Rightarrow> Inl e | Inr i \<Rightarrow> Inr (Suc i)))"

text \<open>\<^verbatim>\<open>s[a:b]\<close> for indices within the string; empty when \<open>b \<le> a\<close>.\<close>

definition slice :: "string \<Rightarrow> nat \<Rightarrow> nat \<Rightarrow> string" where
  "slice s a b = take (b - a) (drop a s)"

definition startswith :: "string \<Rightarrow> string \<Rightarrow> bool" where
  "startswith s p \<longleftrightarrow> take (length p) s = p"

text \<open>
  \<^verbatim>\<open>local_torrent_from(torrent, site=None)\<close>. Every failure of the source is a
  \<^verbatim>\<open>ValueError\<close>: the two \<^verbatim>\<open>raise\<close> statements and \<^verbatim>\<open>str.index\<close>.
\<close>

definition local_torrent_from :: "TypedTorrent \<Rightarrow> string option \<Rightarrow> error + LocalTorrent" where
  "local_torrent_from t site_arg =
     (let nm = name t in
      case (case site_arg of
              None \<Rightarrow> (case re_match_name nm of None \<Rightarrow> Inl ValueError | Some g \<Rightarrow> Inr g)
            | Some s \<Rightarrow> Inr s) of
        Inl e \<Rightarrow> Inl e
      | Inr st \<Rightarrow>
          let prefix = ''['' @ st @ ''-'' in
          if startswith nm prefix then
            (case str_index nm (CHR '']'') of
               Inl e \<Rightarrow> Inl e
             | Inr j \<Rightarrow>
                 let sid = int_or (slice nm (length prefix) j) 0 in
                 if sid \<noteq> 0
                 then Inr \<lparr>torrent = t, local_seed_id = sid, local_site = st, info = None\<rparr>
                 else Inl ValueError)
          else Inl ValueError)"

text \<open>The identity matcher of the specification: the name alone, no site given.\<close>

definition identify :: "string \<Rightarrow> error + (string \<times> int)" where
  "identify nm =
     (case local_torrent_from \<lparr>name = nm, hash = [], save_path = []\<rparr> None of
        Inl e \<Rightarrow> Inl e
      | Inr l \<Rightarrow> Inr (local_site l, local_seed_id l))"

section \<open>The requests \<^verbatim>\<open>BtClient\<close> sends to qBittorrent\<close>

text \<open>
  The qBittorrent client is external. A method of \<^verbatim>\<open>BtClient\<close> is modelled by the
  sequence of requests it issues, in order, when every request returns normally;
  \<^verbatim>\<open>time.sleep\<close> is recorded as an event of its own. Log output (\<^verbatim>\<open>_info\<close>,
  \<^verbatim>\<open>_debug\<close>) has no effect on the client and is left out.
\<close>

record torrents_add_args =
  arg_torrent_files :: string
  arg_save_path :: string
  arg_category :: string
  arg_is_skip_checking :: bool
  arg_is_paused :: bool
  arg_rename :: string
  arg_tags :: "string list"
  arg_upload_limit :: int

datatype call =
    TorrentsDelete bool "string list"
  | Sleep
  | TorrentsCreateCategory string string
  | TorrentsAdd torrents_add_args

subsection \<open>\<^verbatim>\<open>BtClient.remove_torrent\<close>\<close>

text \<open>
  The parameter \<^verbatim>\<open>extra: typing.Optional[typing.Iterable[LocalTorrent]]\<close>. An
  iterable is either a collection (a list, a tuple, a set), which gives its elements
  at every walk, or an iterator (a generator, \<^verbatim>\<open>iter(...)\<close>), which gives them at the
  first walk and nothing afterwards. \<open>walk\<close> returns the elements of one walk and the
  iterable as the walk leaves it.
\<close>

datatype 'a iterable = Collection "'a list" | Iterator "'a list"

fun walk :: "'a iterable \<Rightarrow> 'a list \<times> 'a iterable" where
  "walk (Collection xs) = (xs, Collection xs)"
| "walk (Iterator xs) = (xs, Iterator [])"

text \<open>
  The source walks \<^verbatim>\<open>extra\<close> twice: first for the names of the log line
  (\<^verbatim>\<open>"\n".join(t.torrent.name for t in extra)\<close>, evaluated when \<^verbatim>\<open>_info\<close> is
  called), then for the hashes of the request. \<open>TorrentsDelete b hs\<close> stands for
  \<^verbatim>\<open>torrents_delete(delete_files=b, torrent_hashes=hs)\<close>.
\<close>

definition remove_torrent :: "LocalTorrent \<Rightarrow> LocalTorrent iterable option \<Rightarrow> call list" where
  "remove_torrent t extra =
     (case extra of
        None \<Rightarrow> []
      | Some ex \<Rightarrow>
          (case walk ex of
             (logged, ex1) \<Rightarrow>
               (case walk ex1 of
                  (members, ex2) \<Rightarrow>
                    [TorrentsDelete False (map (\<lambda>x. hash (torrent x)) members), Sleep])))
     @ [TorrentsDelete True [hash (torrent t)]]"

text \<open>Reading a request: does it delete files, and which hashes does it remove.\<close>

fun deletes_files :: "call \<Rightarrow> bool" where
  "deletes_files (TorrentsDelete b hs) = b"
| "deletes_files c = False"

fun keeps_files :: "call \<Rightarrow> bool" where
  "keeps_files (TorrentsDelete b hs) = (\<not> b)"
| "keeps_files c = False"

fun removed_hashes :: "call \<Rightarrow> string list" where
  "removed_hashes (TorrentsDelete b hs) = hs"
| "removed_hashes c = []"

subsection \<open>\<^verbatim>\<open>os.path.join\<close> and \<^verbatim>\<open>BtClient._get_download_dir\<close>\<close>

text \<open>
  \<^verbatim>\<open>os.path.join\<close> as \<^verbatim>\<open>posixpath\<close> defines it: a component that starts with the
  separator replaces what came before; otherwise it is appended, with a separator unless
  the path so far is empty or already ends in one. \<^verbatim>\<open>os.path.realpath\<close> depends on the
  file system and is a parameter.
\<close>

definition join2 :: "string \<Rightarrow> string \<Rightarrow> string" where
  "join2 a b =
     (if startswith b ''/'' then b
      else if a = [] \<or> last a = CHR ''/'' then a @ b
      else a @ ''/'' @ b)"

definition path_join :: "string \<Rightarrow> string list \<Rightarrow> string" where
  "path_join a ps = foldl join2 a ps"

definition get_download_dir :: "(string \<Rightarrow> string) \<Rightarrow> string \<Rightarrow> TorrentInfo \<Rightarrow> string" where
  "get_download_dir realpath download_dir t =
     (let rp = realpath download_dir in
      if second_category t \<noteq> [] then path_join rp [category t, second_category t]
      else path_join rp [category t])"

subsection \<open>\<^verbatim>\<open>BtClient.add_torrent\<close>\<close>

text \<open>
  The parameter \<^verbatim>\<open>exists: typing.Union[bool, LocalTorrent] = False\<close>.
  \<^verbatim>\<open>bool(exists)\<close> is the flag itself for a \<^verbatim>\<open>bool\<close> and true for a
  \<^verbatim>\<open>LocalTorrent\<close> object. The argument \<open>limit\<close> stands for
  \<^verbatim>\<open>int(self.upload_limit * 1024 * 1024)\<close>, a floating-point product computed
  outside the model.
\<close>

datatype exists_arg = ExistsBool bool | ExistsLocal LocalTorrent

fun py_bool :: "exists_arg \<Rightarrow> bool" where
  "py_bool (ExistsBool b) = b"
| "py_bool (ExistsLocal l) = True"

definition add_torrent ::
  "(string \<Rightarrow> string) \<Rightarrow> int \<Rightarrow> string \<Rightarrow> TorrentInfo \<Rightarrow> string \<Rightarrow> bool \<Rightarrow> exists_arg \<Rightarrow> call list"
where
  "add_torrent realpath limit payload i download_dir paused ex =
     (let ttl = generate_rename i;
          sp = (case ex of
                  ExistsLocal l \<Rightarrow> save_path (torrent l)
                | ExistsBool b \<Rightarrow> get_download_dir realpath download_dir i)
      in [TorrentsAdd \<lparr>arg_torrent_files = payload, arg_save_path = sp,
            arg_category = category i, arg_is_skip_checking = py_bool ex,
            arg_is_paused = paused, arg_rename = ttl, arg_tags = [site i],
            arg_upload_limit = limit\<rparr>])"

subsection \<open>\<^verbatim>\<open>BtClient.init_categories\<close>\<close>

text \<open>
  \<open>existing\<close> is the key set of \<^verbatim>\<open>torrents_categories()\<close>, read once before the
  loop. The loop variable \<^verbatim>\<open>download_dir\<close> is reassigned in the body, so it is an
  argument of the recursion.
\<close>

fun init_categories_loop ::
  "(string \<Rightarrow> string) \<Rightarrow> string list \<Rightarrow> string \<Rightarrow> string list \<Rightarrow> call list"
where
  "init_categories_loop realpath existing download_dir [] = []"
| "init_categories_loop realpath existing download_dir (c # cs) =
     (if c \<in> set existing then init_categories_loop realpath existing download_dir cs
      else let d = path_join (realpath download_dir) [c] in
        TorrentsCreateCategory c d # init_categories_loop realpath existing d cs)"

definition init_categories ::
  "(string \<Rightarrow> string) \<Rightarrow> string list \<Rightarrow> string \<Rightarrow> string list \<Rightarrow> call list"
where
  "init_categories realpath existing download_dir categories =
     init_categories_loop realpath existing download_dir categories"

section \<open>Pages as \<^verbatim>\<open>bs4\<close> shows them\<close>

text \<open>
  \<^verbatim>\<open>ByrApi\<close> reads pages through BeautifulSoup. The library is external, so a tag is
  represented by what the source can observe of it: its attribute dictionary, its text
  (\<^verbatim>\<open>.text\<close>), its text with every piece stripped (\<^verbatim>\<open>get_text(strip=True)\<close>), its
  markup (\<^verbatim>\<open>str(tag)\<close>), the element and the sibling that follow it, and a table with
  the answers to the queries \<^verbatim>\<open>select\<close>, \<^verbatim>\<open>find_all\<close> and \<^verbatim>\<open>find_parent\<close>. A query
  that is not in the table finds nothing. Every document gives rise to such a value, so
  a statement about all tags covers all documents.
\<close>

datatype query = Select string | FindAll string bool | FindParent string

datatype tag =
  Tag (attrs: "(string \<times> string) list")
      (tag_text: string)
      (stripped_text: string)
      (markup: string)
      (results: "(query \<times> tag list) list")
      (next_element: "node option")
      (next_sibling: "node option")
and node = TagNode tag | StringNode string

definition lookup :: "tag \<Rightarrow> query \<Rightarrow> tag list" where
  "lookup t q = (case map_of (results t) q of None \<Rightarrow> [] | Some ts \<Rightarrow> ts)"

definition first_of :: "tag list \<Rightarrow> tag option" where
  "first_of ts = (case ts of [] \<Rightarrow> None | x # _ \<Rightarrow> Some x)"

definition select :: "tag \<Rightarrow> string \<Rightarrow> tag list" where
  "select t s = lookup t (Select s)"

definition select_one :: "tag \<Rightarrow> string \<Rightarrow> tag option" where
  "select_one t s = first_of (select t s)"

definition find_all :: "tag \<Rightarrow> string \<Rightarrow> bool \<Rightarrow> tag list" where
  "find_all t n recursive = lookup t (FindAll n recursive)"

definition find_tag :: "tag \<Rightarrow> string \<Rightarrow> tag option" where
  "find_tag t n = first_of (find_all t n True)"

definition find_parent :: "tag \<Rightarrow> string \<Rightarrow> tag option" where
  "find_parent t n = first_of (lookup t (FindParent n))"

text \<open>\<^verbatim>\<open>str(x)\<close> for the value of \<^verbatim>\<open>tag.next\<close>: a string node, a tag or \<^verbatim>\<open>None\<close>.\<close>

fun str_node :: "node option \<Rightarrow> string" where
  "str_node None = ''None''"
| "str_node (Some (StringNode s)) = s"
| "str_node (Some (TagNode t)) = markup t"

subsection \<open>Failing steps\<close>

definition and_then :: "error + 'a \<Rightarrow> ('a \<Rightarrow> error + 'b) \<Rightarrow> error + 'b" where
  "and_then m f = (case m of Inl e \<Rightarrow> Inl e | Inr x \<Rightarrow> f x)"

definition require :: "error \<Rightarrow> 'a option \<Rightarrow> error + 'a" where
  "require e m = (case m of None \<Rightarrow> Inl e | Some x \<Rightarrow> Inr x)"

text \<open>\<^verbatim>\<open>xs[i]\<close> on a list with \<open>i \<ge> 0\<close>, and \<^verbatim>\<open>d[k]\<close> on a dictionary.\<close>

definition item :: "'a list \<Rightarrow> nat \<Rightarrow> error + 'a" where
  "item xs i = (if i < length xs then Inr (xs ! i) else Inl IndexError)"

definition getitem :: "('k \<times> 'v) list \<Rightarrow> 'k \<Rightarrow> error + 'v" where
  "getitem d k = require KeyError (map_of d k)"

text \<open>\<^verbatim>\<open>sub in s\<close> for strings.\<close>

fun contains :: "string \<Rightarrow> string \<Rightarrow> bool" where
  "contains [] sub = (sub = [])"
| "contains (x # xs) sub = (startswith (x # xs) sub \<or> contains xs sub)"

section \<open>The records of \<^verbatim>\<open>byre.data\<close>\<close>

text \<open>
  The four promotion constants are imported from \<^verbatim>\<open>byre.data\<close>; they are taken as
  four distinct values.
\<close>

datatype promotion =
    PROMOTION_FREE
  | PROMOTION_TWO_UP
  | PROMOTION_HALF_DOWN
  | PROMOTION_THIRTY_DOWN

record 'f ByrUser =
  user_id :: int
  username :: string
  level :: string
  mana :: 'f
  invitations :: "int option"
  ratio :: 'f
  uploaded :: 'f
  downloaded :: 'f
  ranking :: "int option"
  seeding :: int
  downloading :: int
  connectable :: bool

text \<open>
  Modelled from the spec: the class \<^verbatim>\<open>ByrUser\<close> is declared in \<^verbatim>\<open>byre.data\<close>, which
  is not among the sources. The functions below take the value of \<^verbatim>\<open>ByrUser()\<close> as the
  parameter \<open>fresh_user\<close>; \<open>new_ByrUser\<close> is that value as the data model of the
  specification describes it: identifier 0, empty strings, zero floats, absent
  invitations and ranking, seeding and downloading counts 0, not connectable.
\<close>

definition new_ByrUser :: "'f \<Rightarrow> 'f ByrUser" where
  "new_ByrUser z =
     \<lparr>user_id = 0, username = [], level = [], mana = z, invitations = None, ratio = z,
      uploaded = z, downloaded = z, ranking = None, seeding = 0, downloading = 0,
      connectable = False\<rparr>"

text \<open>
  The keyword arguments of \<^verbatim>\<open>TorrentInfo(...)\<close> as \<^verbatim>\<open>_extract_torrent_table\<close>
  passes them (the class of \<^verbatim>\<open>byre.data\<close>, an older one than the record of the same
  name that \<^verbatim>\<open>bt.py\<close> reads).
\<close>

record 'f ByrTorrentInfo =
  ti_title :: string
  ti_sub_title :: string
  ti_seed_id :: int
  ti_cat :: string
  ti_category :: string
  ti_promotions :: "promotion list"
  ti_file_size :: 'f
  ti_live_time :: 'f
  ti_seeders :: int
  ti_leechers :: int
  ti_finished :: int
  ti_comments :: int
  ti_uploader :: "'f ByrUser"
  ti_uploaded :: 'f
  ti_downloaded :: 'f

section \<open>What lies outside the sources\<close>

text \<open>
  The functions below are library code or code of the repository that is not among the
  sources; they are parameters of the model, with \<open>'f\<close> for Python's \<^verbatim>\<open>float\<close> and
  \<open>'t\<close> for \<^verbatim>\<open>datetime\<close>:
  \<^item> \<open>float_of_str\<close> is \<^verbatim>\<open>float(s)\<close>, \<open>None\<close> for its \<^verbatim>\<open>ValueError\<close>;
    \<open>float_zero\<close> is \<^verbatim>\<open>0.\<close>;
  \<^item> \<open>convert_byr_size\<close> is \<^verbatim>\<open>utils.convert_byr_size\<close>;
  \<^item> \<open>fromisoformat\<close> is \<^verbatim>\<open>datetime.datetime.fromisoformat\<close>, \<open>None\<close> for its
    \<^verbatim>\<open>ValueError\<close>;
  \<^item> \<open>days_since t\<close> is \<^verbatim>\<open>(datetime.datetime.now() - t).total_seconds() / (60 * 60 * 24)\<close>,
    which raises (\<^verbatim>\<open>TypeError\<close>) when the time stamp carries a time zone;
  \<^item> \<open>convert_byr_category\<close> is \<^verbatim>\<open>TorrentInfo.convert_byr_category\<close>;
  \<^item> \<open>parse_qs_query href\<close> is \<^verbatim>\<open>parse_qs(urlparse(href).query)\<close>, a dictionary from
    parameter names to their lists of values;
  \<^item> \<open>fresh_user\<close> is the object that \<^verbatim>\<open>ByrUser()\<close> builds.
\<close>

record ('f, 't) externals =
  float_of_str :: "string \<Rightarrow> 'f option"
  float_zero :: 'f
  convert_byr_size :: "string \<Rightarrow> error + 'f"
  fromisoformat :: "string \<Rightarrow> 't option"
  days_since :: "'t \<Rightarrow> error + 'f"
  convert_byr_category :: "string \<Rightarrow> string"
  parse_qs_query :: "string \<Rightarrow> (string \<times> string list) list"
  fresh_user :: "'f ByrUser"

section \<open>\<^verbatim>\<open>ByrApi\<close>\<close>

subsection \<open>String constants\<close>

text \<open>
  The Chinese literals of the source, as their UTF-8 bytes. In order: the four labels
  \<^verbatim>\<open>_LEVEL\<close> (U+7B49 U+7EA7), \<^verbatim>\<open>_MANA\<close> (U+9B54 U+529B U+503C), \<^verbatim>\<open>_INVITATIONS\<close>
  (U+9080 U+8BF7) and \<^verbatim>\<open>_TRANSFER\<close> (U+4F20 U+8F93); the text for ``no right to
  invite''; the field names for ratio, uploaded and downloaded; the caption of the
  upload ranking; the two titles of the arrows in the info bar (``seeding now'',
  ``downloading now''); the word ``yes''; and the user name given to a hidden uploader
  (U+533F U+540D, ``anonymous'').
\<close>

definition LEVEL :: string where
  "LEVEL = [CHR 0xE7, CHR 0xAD, CHR 0x89, CHR 0xE7, CHR 0xBA, CHR 0xA7]"

definition MANA :: string where
  "MANA = [CHR 0xE9, CHR 0xAD, CHR 0x94, CHR 0xE5, CHR 0x8A, CHR 0x9B, CHR 0xE5, CHR 0x80, CHR 0xBC]"

definition INVITATIONS :: string where
  "INVITATIONS = [CHR 0xE9, CHR 0x82, CHR 0x80, CHR 0xE8, CHR 0xAF, CHR 0xB7]"

definition TRANSFER :: string where
  "TRANSFER = [CHR 0xE4, CHR 0xBC, CHR 0xA0, CHR 0xE8, CHR 0xBE, CHR 0x93]"

definition NO_INVITATION :: string where
  "NO_INVITATION =
     [CHR 0xE6, CHR 0xB2, CHR 0xA1, CHR 0xE6, CHR 0x9C, CHR 0x89, CHR 0xE9, CHR 0x82, CHR 0x80,
      CHR 0xE8, CHR 0xAF, CHR 0xB7, CHR 0xE8, CHR 0xB5, CHR 0x84, CHR 0xE6, CHR 0xA0, CHR 0xBC]"

definition RATIO_FIELD :: string where
  "RATIO_FIELD = [CHR 0xE5, CHR 0x88, CHR 0x86, CHR 0xE4, CHR 0xBA, CHR 0xAB, CHR 0xE7, CHR 0x8E, CHR 0x87]"

definition UPLOADED_FIELD :: string where
  "UPLOADED_FIELD = [CHR 0xE4, CHR 0xB8, CHR 0x8A, CHR 0xE4, CHR 0xBC, CHR 0xA0, CHR 0xE9, CHR 0x87, CHR 0x8F]"

definition DOWNLOADED_FIELD :: string where
  "DOWNLOADED_FIELD = [CHR 0xE4, CHR 0xB8, CHR 0x8B, CHR 0xE8, CHR 0xBD, CHR 0xBD, CHR 0xE9, CHR 0x87, CHR 0x8F]"

definition RANKING_CAPTION :: string where
  "RANKING_CAPTION =
     [CHR 0xE4, CHR 0xB8, CHR 0x8A, CHR 0xE4, CHR 0xBC, CHR 0xA0, CHR 0xE6, CHR 0x8E, CHR 0x92,
      CHR 0xE8, CHR 0xA1, CHR 0x8C]"

definition SEEDING_ARROW :: string where
  "SEEDING_ARROW =
     ''#info_block img.arrowup[title='' @
     [CHR 0xE5, CHR 0xBD, CHR 0x93, CHR 0xE5, CHR 0x89, CHR 0x8D, CHR 0xE5, CHR 0x81, CHR 0x9A,
      CHR 0xE7, CHR 0xA7, CHR 0x8D] @ '']''"

definition DOWNLOADING_ARROW :: string where
  "DOWNLOADING_ARROW =
     ''#info_block img.arrowdown[title='' @
     [CHR 0xE5, CHR 0xBD, CHR 0x93, CHR 0xE5, CHR 0x89, CHR 0x8D, CHR 0xE4, CHR 0xB8, CHR 0x8B,
      CHR 0xE8, CHR 0xBD, CHR 0xBD] @ '']''"

definition YES :: string where
  "YES = [CHR 0xE6, CHR 0x98, CHR 0xAF]"

definition ANONYMOUS :: string where
  "ANONYMOUS = [CHR 0xE5, CHR 0x8C, CHR 0xBF, CHR 0xE5, CHR 0x90, CHR 0x8D]"

subsection \<open>\<^verbatim>\<open>ByrApi._extract_url_id\<close> and \<^verbatim>\<open>ByrApi.current_user_id\<close>\<close>

definition extract_url_id :: "('f, 't) externals \<Rightarrow> string \<Rightarrow> error + int" where
  "extract_url_id env href =
     and_then (getitem (parse_qs_query env href) ''id'') (\<lambda>vs.
     and_then (item vs 0) (\<lambda>v.
     require ValueError (py_int v)))"

text \<open>
  The state of a \<^verbatim>\<open>ByrApi\<close> object: the attribute \<^verbatim>\<open>_user_id\<close> (0 until resolved) and,
  to count page fetches, the paths requested so far. The session is external:
  \<open>get_soup k path\<close> is what \<^verbatim>\<open>self.client.get_soup(path)\<close> returns when \<open>k\<close> pages
  have been requested before, a page or the \<^verbatim>\<open>ConnectionError\<close> of \<^verbatim>\<open>ByrClient.get\<close>.
\<close>

record api_state =
  cached_user_id :: int
  fetched :: "string list"

definition current_user_id ::
  "(nat \<Rightarrow> string \<Rightarrow> error + tag) \<Rightarrow> ('f, 't) externals \<Rightarrow> api_state \<Rightarrow> (error + int) \<times> api_state"
where
  "current_user_id get_soup env st =
     (if cached_user_id st \<noteq> 0 then (Inr (cached_user_id st), st)
      else
        let st1 = st\<lparr>fetched := fetched st @ ['''']\<rparr> in
        case and_then (get_soup (length (fetched st)) '''') (\<lambda>page.
             and_then (item (select page ''a[class=User_Name]'') 0) (\<lambda>a.
             and_then (getitem (attrs a) ''href'') (\<lambda>href.
             extract_url_id env href))) of
          Inl e \<Rightarrow> (Inl e, st1)
        | Inr uid \<Rightarrow> (Inr uid, st1\<lparr>cached_user_id := uid\<rparr>))"

subsection \<open>\<^verbatim>\<open>ByrApi._extract_user_info\<close>\<close>

text \<open>The four \<^verbatim>\<open>if ... in info\<close> blocks of the source, in its order.\<close>

definition extract_level :: "'f ByrUser \<Rightarrow> (string \<times> tag) list \<Rightarrow> 'f ByrUser" where
  "extract_level u tbl =
     (case map_of tbl LEVEL of
        None \<Rightarrow> u
      | Some cell \<Rightarrow>
          (case select_one cell ''img'' of
             None \<Rightarrow> u
           | Some img \<Rightarrow>
               u\<lparr>level := (case map_of (attrs img) ''title'' of None \<Rightarrow> [] | Some v \<Rightarrow> v)\<rparr>))"

definition extract_mana ::
  "('f, 't) externals \<Rightarrow> 'f ByrUser \<Rightarrow> (string \<times> tag) list \<Rightarrow> error + 'f ByrUser"
where
  "extract_mana env u tbl =
     (case map_of tbl MANA of
        None \<Rightarrow> Inr u
      | Some cell \<Rightarrow>
          and_then (require ValueError (float_of_str env (stripped_text cell))) (\<lambda>x.
          Inr (u\<lparr>mana := x\<rparr>)))"

definition extract_invitations :: "'f ByrUser \<Rightarrow> (string \<times> tag) list \<Rightarrow> error + 'f ByrUser" where
  "extract_invitations u tbl =
     (case map_of tbl INVITATIONS of
        None \<Rightarrow> Inr u
      | Some cell \<Rightarrow>
          let txt = stripped_text cell in
          if \<not> contains txt NO_INVITATION
          then and_then (require ValueError (py_int txt)) (\<lambda>n. Inr (u\<lparr>invitations := Some n\<rparr>))
          else Inr u)"

text \<open>\<^verbatim>\<open>text.split(":", 1)\<close> on a text that contains a colon, both parts stripped.\<close>

definition split_colon :: "string \<Rightarrow> string \<times> string" where
  "split_colon txt =
     (strip (takeWhile (\<lambda>c. c \<noteq> CHR '':'') txt),
      strip (drop 1 (dropWhile (\<lambda>c. c \<noteq> CHR '':'') txt)))"

fun extract_transfer_cells ::
  "('f, 't) externals \<Rightarrow> 'f ByrUser \<Rightarrow> tag list \<Rightarrow> error + 'f ByrUser"
where
  "extract_transfer_cells env u [] = Inr u"
| "extract_transfer_cells env u (cell # cells) =
     (let txt = stripped_text cell in
      if CHR '':'' \<notin> set txt then extract_transfer_cells env u cells
      else
        let (field, val) = split_colon txt in
        if field = RATIO_FIELD then
          and_then (require ValueError (float_of_str env val)) (\<lambda>x.
          extract_transfer_cells env (u\<lparr>ratio := x\<rparr>) cells)
        else if field = UPLOADED_FIELD then
          and_then (convert_byr_size env val) (\<lambda>x.
          extract_transfer_cells env (u\<lparr>uploaded := x\<rparr>) cells)
        else if field = DOWNLOADED_FIELD then
          and_then (convert_byr_size env val) (\<lambda>x.
          extract_transfer_cells env (u\<lparr>downloaded := x\<rparr>) cells)
        else extract_transfer_cells env u cells)"

definition extract_transfer ::
  "('f, 't) externals \<Rightarrow> 'f ByrUser \<Rightarrow> (string \<times> tag) list \<Rightarrow> error + 'f ByrUser"
where
  "extract_transfer env u tbl =
     (case map_of tbl TRANSFER of
        None \<Rightarrow> Inr u
      | Some transferred \<Rightarrow> extract_transfer_cells env u (select transferred ''td''))"

definition extract_user_info ::
  "('f, 't) externals \<Rightarrow> 'f ByrUser \<Rightarrow> (string \<times> tag) list \<Rightarrow> error + 'f ByrUser"
where
  "extract_user_info env u tbl =
     and_then (extract_mana env (extract_level u tbl) tbl) (\<lambda>u1.
     and_then (extract_invitations u1 tbl) (\<lambda>u2.
     extract_transfer env u2 tbl))"

subsection \<open>\<^verbatim>\<open>ByrApi._extract_info_bar\<close>\<close>

text \<open>
  The pattern \<^verbatim>\<open>if s.isdigit(): user.field = int(s)\<close>: \<open>assign n\<close> is the record
  with the field set to \<open>n\<close>, \<open>u\<close> the record as it was.
\<close>

definition int_if_digit :: "string \<Rightarrow> (int \<Rightarrow> 'a) \<Rightarrow> 'a \<Rightarrow> error + 'a" where
  "int_if_digit s assign u =
     (if isdigit_str s then and_then (require ValueError (py_int s)) (\<lambda>n. Inr (assign n))
      else Inr u)"

definition extract_info_bar :: "'f ByrUser \<Rightarrow> tag \<Rightarrow> error + 'f ByrUser" where
  "extract_info_bar u page =
     and_then
       (require StopIteration
          (first_of (filter (\<lambda>t. contains (tag_text t) RANKING_CAPTION)
                       (select page ''#info_block font.color_bonus'')))) (\<lambda>ranking_tag.
     let rnk = strip (str_node (next_element ranking_tag)) in
     and_then (int_if_digit rnk (\<lambda>n. u\<lparr>ranking := Some n\<rparr>) u) (\<lambda>u1.
     let sd = strip (case select_one page SEEDING_ARROW of
                       None \<Rightarrow> ''0''
                     | Some up_arrow \<Rightarrow> str_node (next_element up_arrow)) in
     and_then (int_if_digit sd (\<lambda>n. u1\<lparr>seeding := n\<rparr>) u1) (\<lambda>u2.
     let dl = strip (case select_one page DOWNLOADING_ARROW of
                       None \<Rightarrow> ''0''
                     | Some down_arrow \<Rightarrow> str_node (next_element down_arrow)) in
     and_then (int_if_digit dl (\<lambda>n. u2\<lparr>downloading := n\<rparr>) u2) (\<lambda>u3.
     Inr (u3\<lparr>connectable :=
            (case select_one page ''#info_block font[color=green]'' of
               None \<Rightarrow> False
             | Some c \<Rightarrow> contains (tag_text c) YES)\<rparr>)))))"

subsection \<open>\<^verbatim>\<open>ByrApi.user_info\<close>\<close>

text \<open>
  The dictionary \<^verbatim>\<open>info\<close>: rows with exactly two cells, keyed by the text of the first
  cell. A later row with the same key replaces the earlier one, so new entries go to the
  front of the association list.
\<close>

fun info_entries :: "tag list \<Rightarrow> (string \<times> tag) list \<Rightarrow> (string \<times> tag) list" where
  "info_entries [] tbl = tbl"
| "info_entries (entry # entries) tbl =
     (let cells = find_all entry ''td'' False in
      if length cells \<noteq> 2 then info_entries entries tbl
      else info_entries entries ((stripped_text (cells ! 0), cells ! 1) # tbl))"

text \<open>Lines 231 to 246: the fresh record, filled from the heading and the main table.\<close>

definition user_info_page :: "('f, 't) externals \<Rightarrow> tag \<Rightarrow> int \<Rightarrow> error + 'f ByrUser" where
  "user_info_page env page uid =
     (let user = (fresh_user env)
            \<lparr>user_id := uid,
             username := (case find_tag page ''h1'' of None \<Rightarrow> [] | Some h \<Rightarrow> stripped_text h)\<rparr>;
          tbl = info_entries (select page ''td.embedded>table>tr'') []
      in extract_user_info env user tbl)"

text \<open>The path \<^verbatim>\<open>f"userdetails.php?id={user_id}"\<close>.\<close>

definition userdetails_path :: "int \<Rightarrow> string" where
  "userdetails_path uid = ''userdetails.php?id='' @ str_int uid"

definition user_info ::
  "(nat \<Rightarrow> string \<Rightarrow> error + tag) \<Rightarrow> ('f, 't) externals \<Rightarrow> api_state \<Rightarrow> int
     \<Rightarrow> (error + 'f ByrUser) \<times> api_state"
where
  "user_info get_soup env st uid0 =
     (case (if uid0 = 0 then current_user_id get_soup env st else (Inr uid0, st)) of
        (Inl e, st1) \<Rightarrow> (Inl e, st1)
      | (Inr uid, st1) \<Rightarrow>
          let path = userdetails_path uid;
              st2 = st1\<lparr>fetched := fetched st1 @ [path]\<rparr> in
          (case get_soup (length (fetched st1)) path of
             Inl e \<Rightarrow> (Inl e, st2)
           | Inr page \<Rightarrow>
               (case user_info_page env page uid of
                  Inl e \<Rightarrow> (Inl e, st2)
                | Inr user \<Rightarrow>
                    (case current_user_id get_soup env st2 of
                       (Inl e, st3) \<Rightarrow> (Inl e, st3)
                     | (Inr cur, st3) \<Rightarrow>
                         if uid = cur then (extract_info_bar user page, st3)
                         else (Inr user, st3)))))"

subsection \<open>\<^verbatim>\<open>ByrApi._extract_promotion_info\<close>\<close>

text \<open>
  The dictionary \<^verbatim>\<open>selectors\<close> in the order of its literal, which is the order in
  which \<^verbatim>\<open>selectors.items()\<close> yields it; its keys are pairwise distinct.
\<close>

definition selectors :: "(string \<times> promotion list) list" where
  "selectors =
     [(''tr.free_bg'', [PROMOTION_FREE]),
      (''tr.twoup_bg'', [PROMOTION_TWO_UP]),
      (''tr.twoupfree_bg'', [PROMOTION_FREE, PROMOTION_TWO_UP]),
      (''tr.halfdown_bg'', [PROMOTION_HALF_DOWN]),
      (''tr.twouphalfdown_bg'', [PROMOTION_HALF_DOWN, PROMOTION_TWO_UP]),
      (''tr.thirtypercentdown_bg'', [PROMOTION_THIRTY_DOWN]),
      (''font.free'', [PROMOTION_FREE]),
      (''font.twoup'', [PROMOTION_TWO_UP]),
      (''font.twoupfree'', [PROMOTION_FREE, PROMOTION_TWO_UP]),
      (''font.halfdown'', [PROMOTION_HALF_DOWN]),
      (''font.twouphalfdown'', [PROMOTION_HALF_DOWN, PROMOTION_TWO_UP]),
      (''font.thirtypercent'', [PROMOTION_THIRTY_DOWN]),
      (''img.pro_free'', [PROMOTION_FREE]),
      (''img.pro_2up'', [PROMOTION_TWO_UP]),
      (''img.pro_free2up'', [PROMOTION_FREE, PROMOTION_TWO_UP]),
      (''img.pro_50pctdown'', [PROMOTION_HALF_DOWN]),
      (''img.pro_50pctdown2up'', [PROMOTION_HALF_DOWN, PROMOTION_TWO_UP]),
      (''img.pro_30pctdown'', [PROMOTION_THIRTY_DOWN])]"

text \<open>The \<^verbatim>\<open>for\<close> loop over the items, with its \<^verbatim>\<open>return\<close> inside and after.\<close>

fun promotion_loop :: "tag \<Rightarrow> (string \<times> promotion list) list \<Rightarrow> promotion list" where
  "promotion_loop title_cell [] = []"
| "promotion_loop title_cell ((selector, promotions) # rest) =
     (if select_one title_cell selector \<noteq> None then promotions
      else promotion_loop title_cell rest)"

definition extract_promotion_info :: "tag \<Rightarrow> promotion list" where
  "extract_promotion_info title_cell = promotion_loop title_cell selectors"

subsection \<open>\<^verbatim>\<open>ByrApi._extract_torrent_table\<close>\<close>

text \<open>Lines 330 to 338: the uploader of a row, from the ninth cell.\<close>

definition extract_uploader :: "('f, 't) externals \<Rightarrow> tag \<Rightarrow> error + 'f ByrUser" where
  "extract_uploader env cell =
     (case select_one cell ''a[href^=userdetails]'' of
        Some user_cell \<Rightarrow>
          and_then (getitem (attrs user_cell) ''href'') (\<lambda>href.
          and_then (extract_url_id env href) (\<lambda>uid.
          Inr ((fresh_user env)
                 \<lparr>user_id := uid, username := stripped_text user_cell\<rparr>)))
      | None \<Rightarrow> Inr ((fresh_user env)\<lparr>username := ANONYMOUS\<rparr>))"

text \<open>Lines 345 to 350: the subtitle, the string node right after the line break.\<close>

definition extract_subtitle :: "tag \<Rightarrow> string" where
  "extract_subtitle td =
     (case find_tag td ''br'' of
        None \<Rightarrow> []
      | Some subtitle_newline \<Rightarrow>
          (case next_sibling subtitle_newline of
             Some (StringNode s) \<Rightarrow> s
           | _ \<Rightarrow> []))"

text \<open>
  The body of the loop, for one row. Each step that can raise is a step of the chain, in
  the order of the source: an index out of range (\<^verbatim>\<open>IndexError\<close>), an attribute of
  \<^verbatim>\<open>None\<close> (\<^verbatim>\<open>AttributeError\<close>), a missing key (\<^verbatim>\<open>KeyError\<close>), a text that does not
  parse (\<^verbatim>\<open>ValueError\<close>). The age is computed last, among the arguments of
  \<^verbatim>\<open>TorrentInfo(...)\<close>.
\<close>

definition extract_row :: "('f, 't) externals \<Rightarrow> tag \<Rightarrow> error + 'f ByrTorrentInfo" where
  "extract_row env row =
     (let cells = find_all row ''td'' False in
      and_then (item cells 0) (\<lambda>c0.
      and_then (require AttributeError (select_one c0 ''img'')) (\<lambda>img.
      and_then (getitem (attrs img) ''title'') (\<lambda>cat.
      and_then (item cells 2) (\<lambda>c2.
      let comments = int_or (stripped_text c2) 0 in
      and_then (item cells 3) (\<lambda>c3.
      and_then (require AttributeError (select_one c3 ''span'')) (\<lambda>span.
      and_then (getitem (attrs span) ''title'') (\<lambda>stamp.
      and_then (require ValueError (fromisoformat env stamp)) (\<lambda>uploaded_at.
      and_then (item cells 4) (\<lambda>c4.
      and_then (convert_byr_size env (stripped_text c4)) (\<lambda>size.
      and_then (item cells 5) (\<lambda>c5.
      let seeders = int_or (stripped_text c5) 0 in
      and_then (item cells 6) (\<lambda>c6.
      let leechers = int_or (stripped_text c6) 0 in
      and_then (item cells 7) (\<lambda>c7.
      let finished = int_or (stripped_text c7) 0 in
      and_then (item cells 8) (\<lambda>c8.
      and_then (extract_uploader env c8) (\<lambda>user.
      and_then (item cells 1) (\<lambda>title_cell.
      and_then (require AttributeError
                  (select_one title_cell
                     ''table.torrentname td.embedded a[href^=details]'')) (\<lambda>torrent_link.
      and_then (getitem (attrs torrent_link) ''title'') (\<lambda>ttl.
      and_then (getitem (attrs torrent_link) ''href'') (\<lambda>href.
      and_then (extract_url_id env href) (\<lambda>byr_id.
      and_then (require AttributeError (find_parent torrent_link ''td'')) (\<lambda>td.
      let subtitle = extract_subtitle td;
          promotions = extract_promotion_info title_cell in
      and_then (days_since env uploaded_at) (\<lambda>live_time.
      Inr \<lparr>ti_title = ttl, ti_sub_title = subtitle, ti_seed_id = byr_id, ti_cat = cat,
           ti_category = convert_byr_category env cat, ti_promotions = promotions,
           ti_file_size = size, ti_live_time = live_time,
           ti_seeders = seeders, ti_leechers = leechers, ti_finished = finished,
           ti_comments = comments, ti_uploader = user,
           ti_uploaded = float_zero env, ti_downloaded = float_zero env\<rparr>
      )))))))))))))))))))))))"

text \<open>
  The loop over the rows: \<^verbatim>\<open>torrents.append(...)\<close> for a row that is extracted; an
  exception raised in the body is caught nowhere in the function and leaves it.
\<close>

fun extract_rows ::
  "('f, 't) externals \<Rightarrow> tag list \<Rightarrow> 'f ByrTorrentInfo list \<Rightarrow> error + 'f ByrTorrentInfo list"
where
  "extract_rows env [] torrents = Inr torrents"
| "extract_rows env (row # rows) torrents =
     (case extract_row env row of
        Inl e \<Rightarrow> Inl e
      | Inr t \<Rightarrow> extract_rows env rows (torrents @ [t]))"

definition extract_torrent_table ::
  "('f, 't) externals \<Rightarrow> tag list \<Rightarrow> error + 'f ByrTorrentInfo list"
where
  "extract_torrent_table env rows = extract_rows env rows []"

subsection \<open>\<^verbatim>\<open>ByrApi.list_torrents\<close> and the calls on one object\<close>

definition list_torrents ::
  "(nat \<Rightarrow> string \<Rightarrow> error + tag) \<Rightarrow> ('f, 't) externals \<Rightarrow> api_state
     \<Rightarrow> (error + 'f ByrTorrentInfo list) \<times> api_state"
where
  "list_torrents get_soup env st =
     (and_then (get_soup (length (fetched st)) ''torrents.php'') (\<lambda>page.
        extract_torrent_table env (drop 1 (select page ''table.torrents > form > tr''))),
      st\<lparr>fetched := fetched st @ [''torrents.php'']\<rparr>)"

text \<open>
  The public methods of a \<^verbatim>\<open>ByrApi\<close> object that read pages, as events; a process is a
  list of them, applied to the state of the object one after the other.
\<close>

datatype api_call = CurrentUserId | UserInfo int | ListTorrents

fun api_step ::
  "(nat \<Rightarrow> string \<Rightarrow> error + tag) \<Rightarrow> ('f, 't) externals \<Rightarrow> api_state \<Rightarrow> api_call \<Rightarrow> api_state"
where
  "api_step get_soup env st CurrentUserId = snd (current_user_id get_soup env st)"
| "api_step get_soup env st (UserInfo uid) = snd (user_info get_soup env st uid)"
| "api_step get_soup env st ListTorrents = snd (list_torrents get_soup env st)"

definition api_run ::
  "(nat \<Rightarrow> string \<Rightarrow> error + tag) \<Rightarrow> ('f, 't) externals \<Rightarrow> api_state \<Rightarrow> api_call list \<Rightarrow> api_state"
where
  "api_run get_soup env st calls = foldl (api_step get_soup env) st calls"

section \<open>Notions used to state the properties\<close>

text \<open>The category and the directory of a \<^verbatim>\<open>torrents_create_category\<close> request.\<close>

fun created_name :: "call \<Rightarrow> string" where
  "created_name (TorrentsCreateCategory n d) = n"
| "created_name c = []"

fun created_dir :: "call \<Rightarrow> string" where
  "created_dir (TorrentsCreateCategory n d) = d"
| "created_dir c = []"

text \<open>
  A sequence of requests is \<open>nested_under d\<close> when each request creates a category whose
  directory is the join of the real path of the directory before it (\<open>d\<close> for the first
  request) with the category name.
\<close>

fun nested_under :: "(string \<Rightarrow> string) \<Rightarrow> string \<Rightarrow> call list \<Rightarrow> bool" where
  "nested_under realpath d [] = True"
| "nested_under realpath d (TorrentsCreateCategory n dir # cs) =
     (dir = join2 (realpath d) n \<and> nested_under realpath dir cs)"
| "nested_under realpath d (c # cs) = False"

text \<open>
  The part of a name that the pattern and the number of \<^verbatim>\<open>local_torrent_from\<close> can
  reach: what comes before the first closing bracket.
\<close>

definition name_head :: "string \<Rightarrow> string" where
  "name_head nm = takeWhile (\<lambda>c. c \<noteq> CHR '']'') nm"

text \<open>A step that returns, and what a row must have for all steps of its extraction.\<close>

definition succeeds :: "error + 'a \<Rightarrow> bool" where
  "succeeds m = (case m of Inl e \<Rightarrow> False | Inr x \<Rightarrow> True)"

definition row_requirements :: "('f, 't) externals \<Rightarrow> tag \<Rightarrow> bool" where
  "row_requirements env row =
     (let cells = find_all row ''td'' False in
      9 \<le> length cells \<and>
      (case select_one (cells ! 0) ''img'' of
         None \<Rightarrow> False
       | Some img \<Rightarrow> map_of (attrs img) ''title'' \<noteq> None) \<and>
      (case select_one (cells ! 3) ''span'' of
         None \<Rightarrow> False
       | Some span \<Rightarrow>
           (case map_of (attrs span) ''title'' of
              None \<Rightarrow> False
            | Some stamp \<Rightarrow>
                (case fromisoformat env stamp of
                   None \<Rightarrow> False
                 | Some uploaded_at \<Rightarrow> succeeds (days_since env uploaded_at)))) \<and>
      succeeds (convert_byr_size env (stripped_text (cells ! 4))) \<and>
      succeeds (extract_uploader env (cells ! 8)) \<and>
      (case select_one (cells ! 1) ''table.torrentname td.embedded a[href^=details]'' of
         None \<Rightarrow> False
       | Some torrent_link \<Rightarrow>
           map_of (attrs torrent_link) ''title'' \<noteq> None \<and>
           (case map_of (attrs torrent_link) ''href'' of
              None \<Rightarrow> False
            | Some href \<Rightarrow> succeeds (extract_url_id env href)) \<and>
           find_parent torrent_link ''td'' \<noteq> None))"

text \<open>How many times the page of \<^verbatim>\<open>current_user_id\<close> (the empty path) was requested.\<close>

definition id_fetches :: "api_state \<Rightarrow> nat" where
  "id_fetches st = length (filter (\<lambda>p. p = '''') (fetched st))"

text \<open>
  The fields that only \<^verbatim>\<open>_extract_info_bar\<close> assigns, and the fields that
  \<^verbatim>\<open>user_info\<close> assigns before it (from the argument, the heading and the main table).
\<close>

definition info_bar_fields :: "'f ByrUser \<Rightarrow> int option \<times> int \<times> int \<times> bool" where
  "info_bar_fields u = (ranking u, seeding u, downloading u, connectable u)"

definition profile_fields ::
  "'f ByrUser \<Rightarrow> int \<times> string \<times> string \<times> 'f \<times> int option \<times> 'f \<times> 'f \<times> 'f"
where
  "profile_fields u =
     (user_id u, username u, level u, mana u, invitations u, ratio u, uploaded u, downloaded u)"

section \<open>Example data\<close>

text \<open>
  A file system without symbolic links, seen from the root: every absolute path is its
  own real path.
\<close>

definition realpath_id :: "string \<Rightarrow> string" where
  "realpath_id p = p"

text \<open>
  Stand-ins for the external functions on the few texts the examples use. A float and a
  date are represented by the text they were read from; every other text is rejected.
  Of the two time stamps that parse, the one with a time zone cannot be subtracted from
  \<^verbatim>\<open>datetime.now()\<close>. The query dictionaries are those of the three links of the
  examples.
\<close>

definition symbolic_env :: "(string, string) externals" where
  "symbolic_env =
     \<lparr>float_of_str = (\<lambda>s. if s = ''12.5'' \<or> s = ''3.2'' then Some s else None),
      float_zero = ''0.0'',
      convert_byr_size = (\<lambda>s. if s = ''1.5 GB'' then Inr s else Inl ValueError),
      fromisoformat =
        (\<lambda>s. if s = ''2023-05-01 12:00:00'' \<or> s = ''2023-05-01 12:00:00+08:00'' then Some s
             else None),
      days_since =
        (\<lambda>t. if t = ''2023-05-01 12:00:00'' then Inr (''days since '' @ t) else Inl TypeError),
      convert_byr_category = (\<lambda>c. c),
      parse_qs_query =
        (\<lambda>href.
           if href = ''details.php?id=1024&hit=1'' then [(''id'', [''1024'']), (''hit'', [''1''])]
           else if href = ''userdetails.php?id=42'' then [(''id'', [''42''])]
           else []),
      fresh_user = new_ByrUser ''0.0''\<rparr>"

text \<open>A tag with the given attributes, text and query answers, and nothing after it.\<close>

definition element :: "(string \<times> string) list \<Rightarrow> string \<Rightarrow> (query \<times> tag list) list \<Rightarrow> tag" where
  "element a txt res = Tag a txt (strip txt) [] res None None"

text \<open>
  A row of the listing with nine cells: category icon, title cell (link, line break,
  subtitle, promotion icons), comments, age with the time stamp, size, seeders,
  leechers, completed, uploader.
\<close>

definition demo_row :: "string \<Rightarrow> tag \<Rightarrow> tag list \<Rightarrow> tag" where
  "demo_row stamp uploader_cell icons =
     (let br = Tag [] [] [] ''<br/>'' [] (Some (StringNode ''A subtitle''))
                 (Some (StringNode ''A subtitle''));
          td = element [] ''Some.Title A subtitle'' [(FindAll ''br'' True, [br])];
          link = element [(''href'', ''details.php?id=1024&hit=1''), (''title'', ''Some.Title'')]
                   ''Some.Title'' [(FindParent ''td'', [td])]
      in element [] []
           [(FindAll ''td'' False,
             [element [] [] [(Select ''img'', [element [(''title'', ''Movie'')] [] []])],
              element [] ''Some.Title A subtitle''
                [(Select ''table.torrentname td.embedded a[href^=details]'', [link]),
                 (Select ''img.pro_free'', icons)],
              element [] ''3'' [],
              element [] ''1 day'' [(Select ''span'', [element [(''title'', stamp)] ''1 day'' []])],
              element [] ''1.5 GB'' [],
              element [] ''10'' [],
              element [] ''2'' [],
              element [] ''30'' [],
              uploader_cell])])"

definition hidden_uploader_cell :: tag where
  "hidden_uploader_cell = element [] ANONYMOUS []"

definition alice_link :: tag where
  "alice_link = element [(''href'', ''userdetails.php?id=42'')] ''alice'' []"

definition alice_cell :: tag where
  "alice_cell = element [] ''alice'' [(Select ''a[href^=userdetails]'', [alice_link])]"

definition ok_row :: tag where
  "ok_row = demo_row ''2023-05-01 12:00:00'' hidden_uploader_cell []"

definition bad_stamp_row :: tag where
  "bad_stamp_row = demo_row ''yesterday'' hidden_uploader_cell []"

text \<open>Rows that lack something: a time stamp with a zone, no span, five cells.\<close>

definition zoned_stamp_row :: tag where
  "zoned_stamp_row = demo_row ''2023-05-01 12:00:00+08:00'' hidden_uploader_cell []"

definition no_span_row :: tag where
  "no_span_row =
     element [] []
       [(FindAll ''td'' False,
         [element [] [] [(Select ''img'', [element [(''title'', ''Movie'')] [] []])],
          element [] ''Some.Title'' [],
          element [] ''3'' [],
          element [] ''1 day'' []])]"

definition alice_row :: tag where
  "alice_row =
     demo_row ''2023-05-01 12:00:00'' alice_cell [element [(''class'', ''pro_free'')] [] []]"

text \<open>The record that \<open>ok_row\<close> gives.\<close>

definition ok_record :: "string ByrTorrentInfo" where
  "ok_record =
     \<lparr>ti_title = ''Some.Title'', ti_sub_title = ''A subtitle'', ti_seed_id = 1024,
      ti_cat = ''Movie'', ti_category = ''Movie'', ti_promotions = [],
      ti_file_size = ''1.5 GB'', ti_live_time = ''days since 2023-05-01 12:00:00'',
      ti_seeders = 10, ti_leechers = 2, ti_finished = 30, ti_comments = 3,
      ti_uploader = (new_ByrUser ''0.0'')\<lparr>username := ANONYMOUS\<rparr>,
      ti_uploaded = ''0.0'', ti_downloaded = ''0.0''\<rparr>"

text \<open>The record that \<open>alice_row\<close> gives: a promotion icon and a visible uploader.\<close>

definition alice_record :: "string ByrTorrentInfo" where
  "alice_record =
     ok_record
       \<lparr>ti_promotions := [PROMOTION_FREE],
        ti_uploader := (new_ByrUser ''0.0'')\<lparr>user_id := 42, username := ''alice''\<rparr>\<rparr>"

text \<open>A title cell that matches two signatures: a background class and an icon.\<close>

definition two_encodings_cell :: tag where
  "two_encodings_cell =
     element [] ''Some.Title''
       [(Select ''img.pro_free'', [element [(''class'', ''pro_free'')] [] []]),
        (Select ''tr.twoup_bg'', [element [(''class'', ''twoup_bg'')] ''Some.Title'' []])]"

text \<open>
  A small site: the account 42 (alice) is logged in, so every page carries her info bar;
  the home page links to her profile; there are profile pages for the users 7 and 42.
\<close>

definition info_bar :: "(query \<times> tag list) list" where
  "info_bar =
     [(Select ''#info_block font.color_bonus'',
        [Tag [(''class'', ''color_bonus'')] RANKING_CAPTION RANKING_CAPTION [] []
           (Some (StringNode '' 1234 '')) None]),
      (Select SEEDING_ARROW,
        [Tag [(''class'', ''arrowup'')] [] [] [] [] (Some (StringNode ''5 '')) None]),
      (Select DOWNLOADING_ARROW,
        [Tag [(''class'', ''arrowdown'')] [] [] [] [] (Some (StringNode ''1 '')) None]),
      (Select ''#info_block font[color=green]'', [element [(''color'', ''green'')] YES []])]"

definition home_page :: tag where
  "home_page =
     element [] []
       ((Select ''a[class=User_Name]'',
          [element [(''href'', ''userdetails.php?id=42''), (''class'', ''User_Name'')]
             ''alice'' []]) # info_bar)"

definition profile_page :: "string \<Rightarrow> tag" where
  "profile_page nm =
     element [] []
       ([(FindAll ''h1'' True, [element [] nm []]),
         (Select ''td.embedded>table>tr'',
           [element [] [] [(FindAll ''td'' False, [element [] MANA [], element [] ''12.5'' []])],
            element [] [] [(FindAll ''td'' False, [element [(''colspan'', ''2'')] [] []])],
            element [] []
              [(FindAll ''td'' False,
                 [element [] TRANSFER [],
                  element [] []
                    [(Select ''td'', [element [] (RATIO_FIELD @ '': 3.2'') []])]])]])]
        @ info_bar)"

definition demo_site :: "nat \<Rightarrow> string \<Rightarrow> error + tag" where
  "demo_site k path =
     (if path = '''' then Inr home_page
      else if path = ''userdetails.php?id=7'' then Inr (profile_page ''bob'')
      else if path = ''userdetails.php?id=42'' then Inr (profile_page ''alice'')
      else Inl ConnectionError)"

definition bob :: "string ByrUser" where
  "bob =
     \<lparr>user_id = 7, username = ''bob'', level = [], mana = ''12.5'', invitations = None,
      ratio = ''3.2'', uploaded = ''0.0'', downloaded = ''0.0'', ranking = None,
      seeding = 0, downloading = 0, connectable = False\<rparr>"

definition local_a :: LocalTorrent where
  "local_a =
     \<lparr>torrent = \<lparr>name = ''[byr-1]Film'', hash = ''h1'', save_path = ''/dl/Movie''\<rparr>,
      local_seed_id = 1, local_site = ''byr'', info = None\<rparr>"

definition local_b :: LocalTorrent where
  "local_b =
     \<lparr>torrent = \<lparr>name = ''[tju-2]Film'', hash = ''h2'', save_path = ''/dl/Movie''\<rparr>,
      local_seed_id = 2, local_site = ''tju'', info = None\<rparr>"

definition local_c :: LocalTorrent where
  "local_c =
     \<lparr>torrent = \<lparr>name = ''[hdc-3]Film'', hash = ''h3'', save_path = ''/dl/Movie''\<rparr>,
      local_seed_id = 3, local_site = ''hdc'', info = None\<rparr>"

text \<open>
  Two names in the client: one with leading zeros in the id and a Chinese title, one with
  a minus sign in front of the digits.
\<close>

definition cjk_titled :: TypedTorrent where
  "cjk_titled = \<lparr>name = ''[hdc-0042]'' @ ANONYMOUS, hash = ''h4'', save_path = ''/dl''\<rparr>"

definition negative_tagged :: TypedTorrent where
  "negative_tagged = \<lparr>name = ''[byr--5]x'', hash = ''h5'', save_path = ''/dl''\<rparr>"

definition film :: TorrentInfo where
  "film =
     \<lparr>title = ''Film'', seed_id = 5, site = ''byr'', category = ''Movie'',
      second_category = []\<rparr>"

section \<open>Verification: auxiliary facts\<close>

declare str_nat.simps [simp del]

subsection \<open>Decimal text\<close>

lemma digit_chr_isdigit: "d < 10 \<Longrightarrow> isdigit_chr (digit_chr d)"
  by (simp add: isdigit_chr_def digit_chr_def)

lemma digit_val_digit_chr: "d < 10 \<Longrightarrow> digit_val (digit_chr d) = d"
  by (simp add: digit_val_def digit_chr_def)

lemma str_nat_nonempty: "str_nat n \<noteq> []"
  by (subst str_nat.simps) simp

lemma str_nat_digits: "list_all isdigit_chr (str_nat n)"
proof (induction n rule: str_nat.induct)
  case (1 n)
  show ?case
  proof (cases "n < 10")
    case True
    then show ?thesis by (subst str_nat.simps) (simp add: digit_chr_isdigit)
  next
    case False
    with 1 show ?thesis by (subst str_nat.simps) (simp add: digit_chr_isdigit)
  qed
qed

lemma value_of_digits_snoc:
  "value_of_digits (s @ [c]) = 10 * value_of_digits s + digit_val c"
  by (simp add: value_of_digits_def)

lemma value_of_str_nat: "value_of_digits (str_nat n) = n"
proof (induction n rule: str_nat.induct)
  case (1 n)
  show ?case
  proof (cases "n < 10")
    case True
    then show ?thesis
      by (subst str_nat.simps) (simp add: value_of_digits_def digit_val_digit_chr)
  next
    case False
    with 1 have "value_of_digits (str_nat (n div 10)) = n div 10" by simp
    with False show ?thesis
      by (subst str_nat.simps) (simp add: value_of_digits_snoc digit_val_digit_chr)
  qed
qed

lemma str_nat_no_leading_zero: "0 < n \<Longrightarrow> hd (str_nat n) \<noteq> CHR ''0''"
proof (induction n rule: str_nat.induct)
  case (1 n)
  show ?case
  proof (cases "n < 10")
    case True
    have "digit_chr n \<noteq> CHR ''0''"
    proof
      assume "digit_chr n = CHR ''0''"
      then have "digit_val (digit_chr n) = digit_val (CHR ''0'')" by simp
      with True have "n = 0" by (simp add: digit_val_digit_chr) (simp add: digit_val_def)
      with 1(2) show False by simp
    qed
    with True show ?thesis by (subst str_nat.simps) simp
  next
    case False
    then have "0 < n div 10" by simp
    with 1 False have "hd (str_nat (n div 10)) \<noteq> CHR ''0''" by simp
    with False show ?thesis by (subst str_nat.simps) (simp add: str_nat_nonempty)
  qed
qed

lemma digits_us_digits: "s \<noteq> [] \<Longrightarrow> list_all isdigit_chr s \<Longrightarrow> digits_us s = Some s"
proof (induction s rule: digits_us.induct)
  case 1
  then show ?case by simp
next
  case (2 c)
  then show ?case by simp
next
  case (3 c d r)
  then have "d \<noteq> CHR ''_''" by (auto simp: isdigit_chr_def)
  with 3 show ?case by simp
qed

lemma digit_not_blank: "isdigit_chr c \<Longrightarrow> \<not> isblank_int_chr c"
  by (auto simp: isdigit_chr_def isblank_int_chr_def)

lemma strip_digits:
  assumes "list_all isdigit_chr s"
  shows "strip_int s = s"
proof -
  have d: "dropWhile isblank_int_chr t = t" if "list_all isdigit_chr t" for t
    using that by (cases t) (auto simp: digit_not_blank)
  from assms have "list_all isdigit_chr (rev s)" by (simp add: list_all_iff)
  with assms d show ?thesis by (simp add: strip_int_def)
qed

lemma py_int_digits:
  assumes "s \<noteq> []" "list_all isdigit_chr s"
  shows "py_int s = Some (int (value_of_digits s))"
proof -
  from assms obtain c r where s: "s = c # r" by (cases s) auto
  with assms have "isdigit_chr c" by simp
  then have "c \<noteq> CHR ''-''" "c \<noteq> CHR ''+''" by (auto simp: isdigit_chr_def)
  moreover from assms have "strip_int s = s" by (simp add: strip_digits)
  moreover from assms have "digits_us s = Some s" by (rule digits_us_digits)
  ultimately show ?thesis using s by (simp add: py_int_def)
qed

subsection \<open>The pattern of \<^verbatim>\<open>local_torrent_from\<close>\<close>

lemma word_not_dash: "isword_chr c \<Longrightarrow> c \<noteq> CHR ''-'' \<and> c \<noteq> CHR '']''"
  by (auto simp: isword_chr_def isalnum_chr_def isalpha_chr_def isdigit_chr_def)

lemma digit_not_bracket: "isdigit_chr c \<Longrightarrow> c \<noteq> CHR '']'' \<and> c \<noteq> CHR ''-''"
  by (auto simp: isdigit_chr_def)

lemma takeWhile_run:
  "list_all P w \<Longrightarrow> \<not> P c \<Longrightarrow>
   takeWhile P (w @ c # r) = w \<and> dropWhile P (w @ c # r) = c # r"
  by (induction w) auto

text \<open>
  The matcher agrees with the language of the regular expression: it succeeds with
  group \<open>w\<close> exactly on the names \<open>[w-d]rest\<close> with \<open>w\<close> a non-empty run of word
  characters and \<open>d\<close> a non-empty run of digits.
\<close>

lemma re_match_name_tag:
  assumes "w \<noteq> []" "list_all isword_chr w" "d \<noteq> []" "list_all isdigit_chr d"
  shows "re_match_name (CHR ''['' # w @ CHR ''-'' # d @ CHR '']'' # rest) = Some w"
proof -
  have "\<not> isword_chr (CHR ''-'')" using word_not_dash by blast
  with assms(2) have w: "takeWhile isword_chr (w @ CHR ''-'' # d @ CHR '']'' # rest) = w"
    "dropWhile isword_chr (w @ CHR ''-'' # d @ CHR '']'' # rest) = CHR ''-'' # d @ CHR '']'' # rest"
    by (simp_all add: takeWhile_run)
  have "\<not> isdigit_chr (CHR '']'')" using digit_not_bracket by blast
  with assms(4) have d: "takeWhile isdigit_chr (d @ CHR '']'' # rest) = d"
    "dropWhile isdigit_chr (d @ CHR '']'' # rest) = CHR '']'' # rest"
    by (simp_all add: takeWhile_run)
  from assms(1,3) show ?thesis by (simp add: re_match_name_def w d)
qed

lemma re_match_name_Some:
  assumes "re_match_name nm = Some w"
  shows "\<exists>d rest. nm = CHR ''['' # w @ CHR ''-'' # d @ CHR '']'' # rest \<and> w \<noteq> [] \<and>
           list_all isword_chr w \<and> d \<noteq> [] \<and> list_all isdigit_chr d"
proof -
  from assms obtain r0 where nm: "nm = CHR ''['' # r0"
    by (auto simp: re_match_name_def split: list.splits if_splits)
  define r1 where "r1 = dropWhile isword_chr r0"
  from assms nm have tw: "takeWhile isword_chr r0 = w" and wne: "w \<noteq> []"
    by (auto simp: re_match_name_def Let_def split: list.splits if_splits)
  from assms nm obtain r2 where r1: "r1 = CHR ''-'' # r2"
    unfolding r1_def by (auto simp: re_match_name_def Let_def split: list.splits if_splits)
  define d where "d = takeWhile isdigit_chr r2"
  from assms nm r1 have dne: "d \<noteq> []"
    unfolding r1_def d_def
    by (auto simp: re_match_name_def Let_def split: list.splits if_splits)
  from assms nm r1 obtain rest where r3: "dropWhile isdigit_chr r2 = CHR '']'' # rest"
    unfolding r1_def by (auto simp: re_match_name_def Let_def split: list.splits if_splits)
  have "r0 = takeWhile isword_chr r0 @ dropWhile isword_chr r0" by simp
  then have r0: "r0 = w @ CHR ''-'' # r2" using tw r1 r1_def by simp
  have "r2 = takeWhile isdigit_chr r2 @ dropWhile isdigit_chr r2" by simp
  then have r2: "r2 = d @ CHR '']'' # rest" using r3 d_def by simp
  have "list_all isword_chr w"
    using tw by (auto simp: list_all_iff dest: set_takeWhileD)
  moreover have "list_all isdigit_chr d"
    unfolding d_def by (auto simp: list_all_iff dest: set_takeWhileD)
  ultimately show ?thesis using nm r0 r2 wne dne by blast
qed

lemma str_index_tag:
  assumes "list_all isword_chr w" "list_all isdigit_chr d"
  shows "str_index (CHR ''['' # w @ CHR ''-'' # d @ CHR '']'' # rest) (CHR '']'') =
         Inr (length w + length d + 2)"
proof -
  have a: "str_index (u @ CHR '']'' # r) (CHR '']'') = Inr (length u)"
    if "CHR '']'' \<notin> set u" for u r
    using that by (induction u) auto
  from assms have "CHR '']'' \<notin> set (CHR ''['' # w @ CHR ''-'' # d)"
    using word_not_dash digit_not_bracket by (auto simp: list_all_iff)
  then have "str_index ((CHR ''['' # w @ CHR ''-'' # d) @ CHR '']'' # rest) (CHR '']'') =
      Inr (length (CHR ''['' # w @ CHR ''-'' # d))"
    by (rule a)
  then show ?thesis by simp
qed

text \<open>On a tagged name both ways of calling \<^verbatim>\<open>local_torrent_from\<close> give the same.\<close>

lemma local_torrent_from_tag:
  assumes "w \<noteq> []" "list_all isword_chr w" "d \<noteq> []" "list_all isdigit_chr d"
    and "name t = CHR ''['' # w @ CHR ''-'' # d @ CHR '']'' # rest"
    and "site_arg = None \<or> site_arg = Some w"
  shows "local_torrent_from t site_arg =
     (if value_of_digits d \<noteq> 0
      then Inr \<lparr>torrent = t, local_seed_id = int (value_of_digits d), local_site = w,
                info = None\<rparr>
      else Inl ValueError)"
proof -
  have m: "re_match_name (name t) = Some w" using assms by (simp add: re_match_name_tag)
  have p: "startswith (name t) (''['' @ w @ ''-'')" using assms(5) by (simp add: startswith_def)
  have i: "str_index (name t) (CHR '']'') = Inr (length w + length d + 2)"
    unfolding assms(5) using assms(2,4) by (rule str_index_tag)
  have s: "slice (name t) (length (''['' @ w @ ''-'')) (length w + length d + 2) = d"
    using assms(5) by (simp add: slice_def)
  have v: "int_or d 0 = int (value_of_digits d)"
    using assms(3,4) by (simp add: int_or_def py_int_digits)
  from assms(6) show ?thesis
  proof
    assume "site_arg = None"
    then show ?thesis using m p i s v by (simp add: local_torrent_from_def Let_def)
  next
    assume "site_arg = Some w"
    then show ?thesis using p i s v by (simp add: local_torrent_from_def Let_def)
  qed
qed

lemma local_torrent_from_None_cases:
  "local_torrent_from t None = Inl ValueError \<or>
   (\<exists>w d rest. name t = CHR ''['' # w @ CHR ''-'' # d @ CHR '']'' # rest \<and> w \<noteq> [] \<and>
      list_all isword_chr w \<and> d \<noteq> [] \<and> list_all isdigit_chr d \<and> value_of_digits d \<noteq> 0 \<and>
      local_torrent_from t None =
        Inr \<lparr>torrent = t, local_seed_id = int (value_of_digits d), local_site = w,
             info = None\<rparr>)"
proof (cases "re_match_name (name t)")
  case None
  then show ?thesis by (simp add: local_torrent_from_def)
next
  case (Some w)
  then obtain d rest where tag: "name t = CHR ''['' # w @ CHR ''-'' # d @ CHR '']'' # rest"
    "w \<noteq> []" "list_all isword_chr w" "d \<noteq> []" "list_all isdigit_chr d"
    using re_match_name_Some by blast
  show ?thesis
  proof (cases "value_of_digits d = 0")
    case True
    with tag show ?thesis by (simp add: local_torrent_from_tag)
  next
    case False
    with tag have "local_torrent_from t None =
        Inr \<lparr>torrent = t, local_seed_id = int (value_of_digits d), local_site = w,
             info = None\<rparr>"
      by (simp add: local_torrent_from_tag)
    with tag False show ?thesis by blast
  qed
qed

subsection \<open>Chains of failing steps\<close>

lemma and_then_Inr: "(and_then m f = Inr y) = (\<exists>x. m = Inr x \<and> f x = Inr y)"
  by (cases m) (simp_all add: and_then_def)

lemma require_Inr: "(require e m = Inr x) = (m = Some x)"
  by (cases m) (simp_all add: require_def)

lemma item_Inr: "(item xs i = Inr x) = (i < length xs \<and> xs ! i = x)"
  by (simp add: item_def)

lemma getitem_Inr: "(getitem d k = Inr v) = (map_of d k = Some v)"
  by (simp add: getitem_def require_Inr)

lemma succeeds_Inr: "succeeds m = (\<exists>x. m = Inr x)"
  by (cases m) (simp_all add: succeeds_def)

lemma case_option_False:
  "(case m of None \<Rightarrow> False | Some x \<Rightarrow> P x) = (\<exists>x. m = Some x \<and> P x)"
  by (cases m) simp_all

subsection \<open>\<^verbatim>\<open>str.index\<close> and the call of \<^verbatim>\<open>local_torrent_from\<close> with a site\<close>

lemma str_index_first: "c \<notin> set u \<Longrightarrow> str_index (u @ c # r) c = Inr (length u)"
  by (induction u) auto

lemma str_index_Inr:
  "str_index s c = Inr j \<Longrightarrow> j < length s \<and> s ! j = c \<and> c \<notin> set (take j s)"
proof (induction s arbitrary: j)
  case Nil
  then show ?case by simp
next
  case (Cons x xs)
  show ?case
  proof (cases "x = c")
    case True
    with Cons.prems show ?thesis by simp
  next
    case False
    with Cons.prems obtain i where i: "str_index xs c = Inr i" "j = Suc i"
      by (auto split: sum.splits)
    from Cons.IH [OF i(1)] False i(2) show ?thesis by simp
  qed
qed

lemma str_index_Inl: "str_index s c = Inl e \<Longrightarrow> e = ValueError"
  by (induction s arbitrary: e) (auto split: if_splits sum.splits)

lemma py_int_empty: "py_int [] = None"
  by (simp add: py_int_def strip_int_def)

lemma local_torrent_from_Some_iff:
  "(local_torrent_from t (Some st) = Inr l) =
     (\<exists>body rest k. name t = ''['' @ st @ ''-'' @ body @ '']'' @ rest \<and>
        CHR '']'' \<notin> set st \<and> CHR '']'' \<notin> set body \<and> py_int body = Some k \<and> k \<noteq> 0 \<and>
        l = \<lparr>torrent = t, local_seed_id = k, local_site = st, info = None\<rparr>)"
  (is "?L = ?R")
proof
  assume l: ?L
  let ?p = "''['' @ st @ ''-''"
  from l have sw: "startswith (name t) ?p"
    by (auto simp: local_torrent_from_def Let_def split: if_splits)
  from l sw obtain j where j: "str_index (name t) (CHR '']'') = Inr j"
    by (auto simp: local_torrent_from_def Let_def split: sum.splits)
  define body where "body = slice (name t) (length ?p) j"
  from l sw j have sid: "int_or body 0 \<noteq> 0"
    and lv: "l = \<lparr>torrent = t, local_seed_id = int_or body 0, local_site = st, info = None\<rparr>"
    by (auto simp: local_torrent_from_def Let_def body_def split: if_splits)
  from sid obtain k where k: "py_int body = Some k" "k \<noteq> 0" "int_or body 0 = k"
    by (auto simp: int_or_def split: option.splits)
  from k(1) have bne: "body \<noteq> []" using py_int_empty by auto
  define lp where "lp = length ?p"
  from bne have lt: "lp < j" by (auto simp: body_def slice_def lp_def)
  from str_index_Inr [OF j] have jl: "j < length (name t)" and jc: "name t ! j = CHR '']''"
    and jn: "CHR '']'' \<notin> set (take j (name t))" by simp_all
  from lt have "j = lp + (j - lp)" by simp
  then have "take j (name t) = take (lp + (j - lp)) (name t)" by simp
  also have "\<dots> = take lp (name t) @ take (j - lp) (drop lp (name t))"
    by (rule take_add)
  also have "\<dots> = ?p @ body"
    using sw by (simp add: startswith_def body_def slice_def lp_def)
  finally have tk: "take j (name t) = ?p @ body" .
  have "name t = take j (name t) @ name t ! j # drop (Suc j) (name t)"
    using jl by (simp add: id_take_nth_drop [symmetric])
  with tk jc have nm: "name t = ''['' @ st @ ''-'' @ body @ '']'' @ drop (Suc j) (name t)"
    by simp
  from jn tk have "CHR '']'' \<notin> set st" "CHR '']'' \<notin> set body" by auto
  with nm k lv show ?R by blast
next
  assume ?R
  then obtain body rest k where
    nm: "name t = ''['' @ st @ ''-'' @ body @ '']'' @ rest" and
    ns: "CHR '']'' \<notin> set st" and nb: "CHR '']'' \<notin> set body" and
    k: "py_int body = Some k" "k \<noteq> 0" and
    lv: "l = \<lparr>torrent = t, local_seed_id = k, local_site = st, info = None\<rparr>"
    by blast
  let ?p = "''['' @ st @ ''-''"
  have sw: "startswith (name t) ?p" using nm by (simp add: startswith_def)
  from ns nb have "CHR '']'' \<notin> set (?p @ body)" by simp
  then have "str_index ((?p @ body) @ CHR '']'' # rest) (CHR '']'') = Inr (length (?p @ body))"
    by (rule str_index_first)
  then have i: "str_index (name t) (CHR '']'') = Inr (length ?p + length body)"
    using nm by simp
  have s: "slice (name t) (length ?p) (length ?p + length body) = body"
    using nm by (simp add: slice_def)
  have v: "int_or body 0 = k" using k by (simp add: int_or_def)
  show ?L using sw i s v k(2) lv by (simp add: local_torrent_from_def Let_def)
qed

lemma local_torrent_from_error: "local_torrent_from t a = Inl e \<Longrightarrow> e = ValueError"
  by (auto simp: local_torrent_from_def Let_def dest: str_index_Inl
      split: option.splits sum.splits if_splits)

section \<open>Verification: the claims on \<^verbatim>\<open>BtClient\<close>\<close>

subsection \<open>C1: removal order for torrents that share their files\<close>

text \<open>
  Claim C1 says that for every removal of a torrent together with other local torrents
  sharing its content, the siblings are removed first with file deletion suppressed,
  and only then the target with its files; the docstring of \<^verbatim>\<open>remove_torrent\<close>
  promises the same. The source breaks this for an \<^verbatim>\<open>extra\<close> that is an iterator,
  which its type admits: the walk for the log line uses the iterator up, the request
  with file deletion suppressed carries no hash, and the files are deleted while both
  siblings are still registered. This is \<^verbatim>\<open>remove_torrent(a, extra=iter([b, c]))\<close>.
\<close>

theorem remove_torrent_iterator_removes_no_sibling:
  "remove_torrent local_a (Some (Iterator [local_b, local_c])) =
     [TorrentsDelete False [], Sleep, TorrentsDelete True [''h1'']] \<and>
   hash (torrent local_b) = ''h2'' \<and> hash (torrent local_c) = ''h3''"
  by (simp add: remove_torrent_def local_a_def local_b_def local_c_def)

text \<open>
  For an \<^verbatim>\<open>extra\<close> that is a collection the order is as claimed: one request with file
  deletion suppressed carries the hashes of all siblings, and the only request that
  deletes files comes after it and names the target alone.
\<close>

lemma remove_torrent_collection_order:
  "(let cs = remove_torrent t (Some (Collection ex)) in
     cs = [TorrentsDelete False (map (\<lambda>x. hash (torrent x)) ex), Sleep,
           TorrentsDelete True [hash (torrent t)]] \<and>
     filter deletes_files cs = [TorrentsDelete True [hash (torrent t)]] \<and>
     (\<forall>s \<in> set ex. \<exists>i j. i < j \<and> j < length cs \<and> keeps_files (cs ! i) \<and>
         hash (torrent s) \<in> set (removed_hashes (cs ! i)) \<and> deletes_files (cs ! j)) \<and>
     (\<forall>i j. i < length cs \<and> j < length cs \<and> deletes_files (cs ! i) \<and> keeps_files (cs ! j)
         \<longrightarrow> j < i))"
proof -
  let ?cs = "[TorrentsDelete False (map (\<lambda>x. hash (torrent x)) ex), Sleep,
           TorrentsDelete True [hash (torrent t)]]"
  have eq: "remove_torrent t (Some (Collection ex)) = ?cs" by (simp add: remove_torrent_def)
  have f: "filter deletes_files ?cs = [TorrentsDelete True [hash (torrent t)]]" by simp
  have sib: "\<forall>s \<in> set ex. \<exists>i j. i < j \<and> j < length ?cs \<and> keeps_files (?cs ! i) \<and>
         hash (torrent s) \<in> set (removed_hashes (?cs ! i)) \<and> deletes_files (?cs ! j)"
  proof
    fix s assume "s \<in> set ex"
    then have "(0::nat) < 2 \<and> 2 < length ?cs \<and> keeps_files (?cs ! 0) \<and>
         hash (torrent s) \<in> set (removed_hashes (?cs ! 0)) \<and> deletes_files (?cs ! 2)"
      by simp
    then show "\<exists>i j. i < j \<and> j < length ?cs \<and> keeps_files (?cs ! i) \<and>
         hash (torrent s) \<in> set (removed_hashes (?cs ! i)) \<and> deletes_files (?cs ! j)"
      by blast
  qed
  have ord: "\<forall>i j. i < length ?cs \<and> j < length ?cs \<and> deletes_files (?cs ! i) \<and>
         keeps_files (?cs ! j) \<longrightarrow> j < i"
  proof (intro allI impI)
    fix i j
    assume a: "i < length ?cs \<and> j < length ?cs \<and> deletes_files (?cs ! i) \<and>
         keeps_files (?cs ! j)"
    then have "i = 0 \<or> i = 1 \<or> i = 2" "j = 0 \<or> j = 1 \<or> j = 2" by auto
    with a show "j < i" by auto
  qed
  show ?thesis unfolding Let_def eq using f sib ord by blast
qed

lemma remove_torrent_collection_example:
  "remove_torrent local_a (Some (Collection [local_b, local_c])) =
     [TorrentsDelete False [''h2'', ''h3''], Sleep, TorrentsDelete True [''h1'']]"
  using remove_torrent_collection_order [of local_a "[local_b, local_c]"]
  by (simp add: Let_def local_a_def local_b_def local_c_def)

subsection \<open>C2: the canonical name and its round trip\<close>

text \<open>
  Claim C2. For a torrent record with an alphanumeric site key, a positive remote id
  and any title, \<^verbatim>\<open>_generate_rename\<close> yields exactly \<open>[site-id]title\<close>: the id is
  rendered in plain decimal (digits only, no leading zero, with the value of the id),
  neither the site nor the id contains a hyphen, and the title follows the closing
  bracket directly. Parsing the generated name with \<^verbatim>\<open>local_torrent_from\<close> recovers the
  same site and id, both when the site is found by the pattern and when it is given.
\<close>

theorem generate_rename_roundtrip:
  assumes "isalnum_str (site i)" and "0 < seed_id i"
  shows "generate_rename i = ''['' @ site i @ ''-'' @ str_int (seed_id i) @ '']'' @ title i \<and>
         isdigit_str (str_int (seed_id i)) \<and>
         hd (str_int (seed_id i)) \<noteq> CHR ''0'' \<and>
         int (value_of_digits (str_int (seed_id i))) = seed_id i \<and>
         CHR ''-'' \<notin> set (site i) \<and> CHR ''-'' \<notin> set (str_int (seed_id i)) \<and>
         identify (generate_rename i) = Inr (site i, seed_id i) \<and>
         local_torrent_from (t\<lparr>name := generate_rename i\<rparr>) (Some (site i)) =
           Inr \<lparr>torrent = t\<lparr>name := generate_rename i\<rparr>, local_seed_id = seed_id i,
                local_site = site i, info = None\<rparr>"
proof -
  define d where "d = str_nat (nat (seed_id i))"
  have sd: "str_int (seed_id i) = d" using assms(2) by (simp add: str_int_def d_def)
  have dne: "d \<noteq> []" and dd: "list_all isdigit_chr d"
    and dv: "value_of_digits d = nat (seed_id i)"
    by (simp_all add: d_def str_nat_nonempty str_nat_digits value_of_str_nat)
  have dz: "hd d \<noteq> CHR ''0''" using assms(2) by (simp add: d_def str_nat_no_leading_zero)
  have wne: "site i \<noteq> []" and ww: "list_all isword_chr (site i)"
    using assms(1) by (auto simp: isalnum_str_def isword_chr_def list_all_iff)
  have hy: "CHR ''-'' \<notin> set (site i)" "CHR ''-'' \<notin> set d"
    using ww dd word_not_dash digit_not_bracket by (auto simp: list_all_iff)
  have g: "generate_rename i = CHR ''['' # site i @ CHR ''-'' # d @ CHR '']'' # title i"
    by (simp add: generate_rename_def sd)
  have v: "value_of_digits d \<noteq> 0" "int (value_of_digits d) = seed_id i"
    using assms(2) dv by simp_all
  have "local_torrent_from \<lparr>name = generate_rename i, hash = [], save_path = []\<rparr> None =
      Inr \<lparr>torrent = \<lparr>name = generate_rename i, hash = [], save_path = []\<rparr>,
          local_seed_id = seed_id i, local_site = site i, info = None\<rparr>"
    using local_torrent_from_tag [OF wne ww dne dd, of _ "title i" None] g v by simp
  then have idn: "identify (generate_rename i) = Inr (site i, seed_id i)"
    by (simp add: identify_def)
  have lt: "local_torrent_from (t\<lparr>name := generate_rename i\<rparr>) (Some (site i)) =
           Inr \<lparr>torrent = t\<lparr>name := generate_rename i\<rparr>, local_seed_id = seed_id i,
                local_site = site i, info = None\<rparr>"
    using local_torrent_from_tag [OF wne ww dne dd, of _ "title i" "Some (site i)"] g v
    by simp
  show ?thesis
    using sd dne dd dz v hy idn lt by (simp add: generate_rename_def isdigit_str_def)
qed

theorem generate_rename_roundtrip_witness:
  "isalnum_str ''byr'' \<and> (0::int) < 1024 \<and>
   generate_rename \<lparr>title = ''Some.Title'', seed_id = 1024, site = ''byr'',
      category = ''Movie'', second_category = []\<rparr> = ''[byr-1024]Some.Title'' \<and>
   identify ''[byr-1024]Some.Title'' = Inr (''byr'', 1024)"
proof -
  have a: "isalnum_str ''byr''"
    by (simp add: isalnum_str_def isalnum_chr_def isalpha_chr_def)
  have s: "str_int 1024 = ''1024''" by code_simp
  show ?thesis
    using generate_rename_roundtrip [where i = "\<lparr>title = ''Some.Title'', seed_id = 1024,
      site = ''byr'', category = ''Movie'', second_category = []\<rparr>"
      and t = "\<lparr>name = [], hash = [], save_path = []\<rparr>"] a s
    by auto
qed

subsection \<open>C3: which names the identity matcher accepts\<close>

text \<open>
  Claim C3, amended. On a name whose part before the first closing bracket is ASCII,
  \<^verbatim>\<open>local_torrent_from\<close> called with the name alone (the identity matcher) succeeds
  exactly on the names \<open>[site-digits]rest\<close> whose site token is a non-empty string of
  word characters (letters, digits and the underscore) and whose digits form a
  non-empty decimal number of positive value; it returns the site token and that
  value. Called with a site, as \<^verbatim>\<open>list_torrents\<close> calls it, it succeeds exactly on the
  names \<open>[site-body]rest\<close> whose body, the text up to the first closing bracket, is an
  integer literal of non-zero value, which may carry a sign: the id it returns can be
  negative. Every failure, on either path, is a \<^verbatim>\<open>ValueError\<close>. In particular
  \<^verbatim>\<open>identify("[byr-1024]Some.Title")\<close> is \<^verbatim>\<open>("byr", 1024)\<close>, and
  \<^verbatim>\<open>identify("randomname")\<close> and \<^verbatim>\<open>identify("[byr-0]Title")\<close> fail.
\<close>

theorem local_torrent_from_exact:
  assumes "ascii_str (name_head (name t))"
  shows
   "((local_torrent_from t None = Inr l) =
       (\<exists>s d rest. name t = ''['' @ s @ ''-'' @ d @ '']'' @ rest \<and> s \<noteq> [] \<and>
          list_all isword_chr s \<and> isdigit_str d \<and> 0 < value_of_digits d \<and>
          l = \<lparr>torrent = t, local_seed_id = int (value_of_digits d), local_site = s,
               info = None\<rparr>)) \<and>
    ((identify (name t) = Inr (s', n)) =
       (\<exists>d rest. name t = ''['' @ s' @ ''-'' @ d @ '']'' @ rest \<and> s' \<noteq> [] \<and>
          list_all isword_chr s' \<and> isdigit_str d \<and> n = int (value_of_digits d) \<and> 0 < n)) \<and>
    ((local_torrent_from t (Some st) = Inr l') =
       (\<exists>body rest k. name t = ''['' @ st @ ''-'' @ body @ '']'' @ rest \<and>
          CHR '']'' \<notin> set st \<and> CHR '']'' \<notin> set body \<and> py_int body = Some k \<and> k \<noteq> 0 \<and>
          l' = \<lparr>torrent = t, local_seed_id = k, local_site = st, info = None\<rparr>)) \<and>
    ((\<exists>x. local_torrent_from t a = Inr x) \<or> local_torrent_from t a = Inl ValueError) \<and>
    identify ''[byr-1024]Some.Title'' = Inr (''byr'', 1024) \<and>
    identify ''randomname'' = Inl ValueError \<and>
    identify ''[byr-0]Title'' = Inl ValueError"
proof -
  let ?R = "\<exists>s d rest. name t = ''['' @ s @ ''-'' @ d @ '']'' @ rest \<and> s \<noteq> [] \<and>
          list_all isword_chr s \<and> isdigit_str d \<and> 0 < value_of_digits d \<and>
          l = \<lparr>torrent = t, local_seed_id = int (value_of_digits d), local_site = s,
               info = None\<rparr>"
  have 1: "(local_torrent_from t None = Inr l) = ?R"
  proof
    assume a: "local_torrent_from t None = Inr l"
    then have "local_torrent_from t None \<noteq> Inl ValueError" by simp
    with local_torrent_from_None_cases [of t] a show ?R
      by (auto simp: isdigit_str_def)
  next
    assume ?R
    then obtain s d rest where
      tag: "name t = CHR ''['' # s @ CHR ''-'' # d @ CHR '']'' # rest" "s \<noteq> []"
        "list_all isword_chr s" "d \<noteq> []" "list_all isdigit_chr d" "0 < value_of_digits d"
      and lv: "l = \<lparr>torrent = t, local_seed_id = int (value_of_digits d), local_site = s,
               info = None\<rparr>"
      by (auto simp: isdigit_str_def)
    from local_torrent_from_tag [OF tag(2,3,4,5,1), of None] tag(6) lv
    show "local_torrent_from t None = Inr l" by simp
  qed
  let ?u = "\<lparr>name = name t, hash = [], save_path = []\<rparr>"
  let ?Q = "\<exists>d rest. name t = ''['' @ s' @ ''-'' @ d @ '']'' @ rest \<and> s' \<noteq> [] \<and>
          list_all isword_chr s' \<and> isdigit_str d \<and> n = int (value_of_digits d) \<and> 0 < n"
  have 2: "(identify (name t) = Inr (s', n)) = ?Q"
  proof
    assume l: "identify (name t) = Inr (s', n)"
    then have ne: "local_torrent_from ?u None \<noteq> Inl ValueError"
      by (auto simp: identify_def)
    with local_torrent_from_None_cases [of ?u] obtain w d rest where
      tag: "name t = CHR ''['' # w @ CHR ''-'' # d @ CHR '']'' # rest" "w \<noteq> []"
        "list_all isword_chr w" "d \<noteq> []" "list_all isdigit_chr d" "value_of_digits d \<noteq> 0"
      and r: "local_torrent_from ?u None =
          Inr \<lparr>torrent = ?u, local_seed_id = int (value_of_digits d), local_site = w,
               info = None\<rparr>"
      by auto
    from l r have "s' = w" "n = int (value_of_digits d)" by (simp_all add: identify_def)
    with tag show ?Q by (auto simp: isdigit_str_def)
  next
    assume ?Q
    then obtain d rest where
      tag: "name t = CHR ''['' # s' @ CHR ''-'' # d @ CHR '']'' # rest" "s' \<noteq> []"
        "list_all isword_chr s'" "d \<noteq> []" "list_all isdigit_chr d"
        "n = int (value_of_digits d)" "0 < n"
      by (auto simp: isdigit_str_def)
    have "name ?u = CHR ''['' # s' @ CHR ''-'' # d @ CHR '']'' # rest" using tag(1) by simp
    from local_torrent_from_tag [OF tag(2,3,4,5) this, of None] tag(6,7)
    show "identify (name t) = Inr (s', n)" by (simp add: identify_def)
  qed
  have 3: "(\<exists>x. local_torrent_from t a = Inr x) \<or> local_torrent_from t a = Inl ValueError"
  proof (cases "local_torrent_from t a")
    case (Inl e)
    with local_torrent_from_error [of t a e] show ?thesis by simp
  next
    case (Inr x)
    then show ?thesis by blast
  qed
  have 4: "identify ''[byr-1024]Some.Title'' = Inr (''byr'', 1024)" by code_simp
  have 5: "identify ''randomname'' = Inl ValueError" by code_simp
  have 6: "identify ''[byr-0]Title'' = Inl ValueError" by code_simp
  from 1 2 local_torrent_from_Some_iff [of t st l'] 3 4 5 6 show ?thesis by blast
qed

text \<open>
  A name with leading zeros in the id and a Chinese title, read without a site; and a
  name with a minus sign, read with the site \<^verbatim>\<open>byr\<close>.
\<close>

theorem local_torrent_from_exact_witness:
  "ascii_str (name_head (name cjk_titled)) \<and>
   identify (name cjk_titled) = Inr (''hdc'', 42) \<and>
   ascii_str (name_head (name negative_tagged)) \<and>
   local_torrent_from negative_tagged (Some ''byr'') =
     Inr \<lparr>torrent = negative_tagged, local_seed_id = - 5, local_site = ''byr'', info = None\<rparr>"
proof -
  have a: "ascii_str (name_head (name cjk_titled))" by code_simp
  have b: "ascii_str (name_head (name negative_tagged))" by code_simp
  have w: "list_all isword_chr ''hdc''"
    by (simp add: isword_chr_def isalnum_chr_def isalpha_chr_def)
  have d: "isdigit_str ''0042''" by (simp add: isdigit_str_def isdigit_chr_def)
  have v: "int (value_of_digits ''0042'') = 42"
    by (simp add: value_of_digits_def digit_val_def)
  have "\<exists>d rest. name cjk_titled = ''['' @ ''hdc'' @ ''-'' @ d @ '']'' @ rest \<and>
      ''hdc'' \<noteq> [] \<and> list_all isword_chr ''hdc'' \<and> isdigit_str d \<and>
      (42::int) = int (value_of_digits d) \<and> (0::int) < 42"
    using w d v
    by (intro exI [of _ "''0042''"] exI [of _ ANONYMOUS]) (simp add: cjk_titled_def)
  with local_torrent_from_exact [OF a, where s' = "''hdc''" and n = 42]
  have i: "identify (name cjk_titled) = Inr (''hdc'', 42)" by blast
  have p: "py_int ''-5'' = Some (- 5)" by code_simp
  have "\<exists>body rest k. name negative_tagged = ''['' @ ''byr'' @ ''-'' @ body @ '']'' @ rest \<and>
      CHR '']'' \<notin> set ''byr'' \<and> CHR '']'' \<notin> set body \<and> py_int body = Some k \<and> k \<noteq> 0 \<and>
      \<lparr>torrent = negative_tagged, local_seed_id = - 5, local_site = ''byr'', info = None\<rparr> =
      \<lparr>torrent = negative_tagged, local_seed_id = k, local_site = ''byr'', info = None\<rparr>"
    using p
    by (intro exI [of _ "''-5''"] exI [of _ "''x''"] exI [of _ "- 5"])
      (simp add: negative_tagged_def)
  with local_torrent_from_exact [OF b, where st = "''byr''"
      and l' = "\<lparr>torrent = negative_tagged, local_seed_id = - 5, local_site = ''byr'',
                  info = None\<rparr>"]
  have n: "local_torrent_from negative_tagged (Some ''byr'') =
     Inr \<lparr>torrent = negative_tagged, local_seed_id = - 5, local_site = ''byr'', info = None\<rparr>"
    by blast
  from a b i n show ?thesis by blast
qed

text \<open>
  The claim as stated asks for an alphanumeric site token and a positive id. The pattern
  is \<^verbatim>\<open>\w+\<close>, which the underscore matches too; and with the site given there is no
  pattern, only the test \<^verbatim>\<open>seed_id != 0\<close>. Both names below are ASCII.
\<close>

theorem identify_underscore_counterexample:
  "identify ''[a_b-7]x'' = Inr (''a_b'', 7) \<and> \<not> isalnum_str ''a_b'' \<and>
   ascii_str ''[a_b-7]x'' \<and>
   local_torrent_from negative_tagged (Some ''byr'') =
     Inr \<lparr>torrent = negative_tagged, local_seed_id = - 5, local_site = ''byr'', info = None\<rparr> \<and>
   ascii_str (name negative_tagged)"
  by code_simp

subsection \<open>C7: save path and hash checking of an added torrent\<close>

lemma get_download_dir_eq:
  "get_download_dir rp d i =
     (if second_category i \<noteq> [] then join2 (join2 (rp d) (category i)) (second_category i)
      else join2 (rp d) (category i))"
  by (simp add: get_download_dir_def path_join_def Let_def)

text \<open>
  Claim C7, amended. When \<^verbatim>\<open>add_torrent\<close> is given an existing local torrent with the
  same content, the new torrent's save path is that torrent's save path and hash
  checking is skipped. When it is given a boolean instead (the default is
  \<^verbatim>\<open>False\<close>), the save path is the real path of the download directory joined with
  the record's category, and with the secondary category when that is not empty; hash
  checking is skipped exactly when the boolean is true, so it is not skipped for the
  default.
\<close>

theorem add_torrent_paths:
  "add_torrent rp lim p i d paused (ExistsLocal l) =
     [TorrentsAdd \<lparr>arg_torrent_files = p, arg_save_path = save_path (torrent l),
        arg_category = category i, arg_is_skip_checking = True, arg_is_paused = paused,
        arg_rename = generate_rename i, arg_tags = [site i], arg_upload_limit = lim\<rparr>] \<and>
   add_torrent rp lim p i d paused (ExistsBool b) =
     [TorrentsAdd \<lparr>arg_torrent_files = p,
        arg_save_path =
          (if second_category i \<noteq> []
           then join2 (join2 (rp d) (category i)) (second_category i)
           else join2 (rp d) (category i)),
        arg_category = category i, arg_is_skip_checking = b, arg_is_paused = paused,
        arg_rename = generate_rename i, arg_tags = [site i], arg_upload_limit = lim\<rparr>]"
  by (simp add: add_torrent_def get_download_dir_eq Let_def)

text \<open>
  A record with a secondary category, added once with a local duplicate and once with
  the default \<^verbatim>\<open>exists=False\<close>.
\<close>

theorem add_torrent_paths_witness:
  "add_torrent realpath_id 99614720 ''d8:announce'' (film\<lparr>second_category := ''1080p''\<rparr>)
     ''/dl'' False (ExistsLocal local_b) =
     [TorrentsAdd \<lparr>arg_torrent_files = ''d8:announce'', arg_save_path = ''/dl/Movie'',
        arg_category = ''Movie'', arg_is_skip_checking = True, arg_is_paused = False,
        arg_rename = ''[byr-5]Film'', arg_tags = [''byr''], arg_upload_limit = 99614720\<rparr>] \<and>
   add_torrent realpath_id 99614720 ''d8:announce'' (film\<lparr>second_category := ''1080p''\<rparr>)
     ''/new'' False (ExistsBool False) =
     [TorrentsAdd \<lparr>arg_torrent_files = ''d8:announce'', arg_save_path = ''/new/Movie/1080p'',
        arg_category = ''Movie'', arg_is_skip_checking = False, arg_is_paused = False,
        arg_rename = ''[byr-5]Film'', arg_tags = [''byr''], arg_upload_limit = 99614720\<rparr>]"
proof -
  have g: "generate_rename (film\<lparr>second_category := ''1080p''\<rparr>) = ''[byr-5]Film''"
    by code_simp
  have j: "join2 (join2 (realpath_id ''/new'') ''Movie'') ''1080p'' = ''/new/Movie/1080p''"
    by code_simp
  note a = add_torrent_paths [of realpath_id 99614720 "''d8:announce''"
      "film\<lparr>second_category := ''1080p''\<rparr>" "''/dl''" False local_b False]
  note b = add_torrent_paths [of realpath_id 99614720 "''d8:announce''"
      "film\<lparr>second_category := ''1080p''\<rparr>" "''/new''" False local_b False]
  from a b g j show ?thesis
    by (simp add: film_def local_b_def)
qed

text \<open>
  The claim as stated says that hash checking is not skipped whenever no local duplicate
  is supplied. With \<^verbatim>\<open>exists=True\<close> none is supplied: the save path comes from the
  download directory, and checking is skipped.
\<close>

theorem add_torrent_exists_true_counterexample:
  "add_torrent realpath_id 99614720 ''d8:announce'' film ''/dl'' False (ExistsBool True) =
     [TorrentsAdd \<lparr>arg_torrent_files = ''d8:announce'', arg_save_path = ''/dl/Movie'',
        arg_category = ''Movie'', arg_is_skip_checking = True, arg_is_paused = False,
        arg_rename = ''[byr-5]Film'', arg_tags = [''byr''], arg_upload_limit = 99614720\<rparr>]"
  by code_simp

subsection \<open>C10: the directories of newly created categories\<close>

lemma init_loop_nested: "nested_under rp d (init_categories_loop rp ex d cs)"
  by (induction cs arbitrary: d) (simp_all add: Let_def path_join_def)

lemma init_loop_created:
  "map created_name (init_categories_loop rp ex d cs) = filter (\<lambda>c. c \<notin> set ex) cs"
  by (induction cs arbitrary: d) (simp_all add: Let_def)

text \<open>
  Claim C10. In one call of \<^verbatim>\<open>init_categories\<close> the directory of each created
  category is the join of the real path of the directory computed for the category
  created before it (of the base directory for the first one) with its name, because
  the variable \<^verbatim>\<open>download_dir\<close> is reassigned in the loop; so the second of two new
  categories lies under the first. Categories that exist already are skipped: the
  requests create exactly the categories that did not exist, in their order, and no
  request names an existing one.
\<close>

theorem init_categories_nesting:
  "nested_under rp d (init_categories rp ex d cs) \<and>
   map created_name (init_categories rp ex d cs) = filter (\<lambda>c. c \<notin> set ex) cs \<and>
   (\<forall>c \<in> set (init_categories rp ex d cs). created_name c \<notin> set ex) \<and>
   (a \<notin> set ex \<and> b \<notin> set ex \<longrightarrow>
      init_categories rp ex d [a, b] =
        [TorrentsCreateCategory a (join2 (rp d) a),
         TorrentsCreateCategory b (join2 (rp (join2 (rp d) a)) b)])"
proof -
  have n: "nested_under rp d (init_categories rp ex d cs)"
    by (simp add: init_categories_def init_loop_nested)
  have m: "map created_name (init_categories rp ex d cs) = filter (\<lambda>c. c \<notin> set ex) cs"
    by (simp add: init_categories_def init_loop_created)
  have "set (map created_name (init_categories rp ex d cs)) \<inter> set ex = {}"
    unfolding m by auto
  then have s: "\<forall>c \<in> set (init_categories rp ex d cs). created_name c \<notin> set ex" by auto
  have t: "a \<notin> set ex \<and> b \<notin> set ex \<longrightarrow>
      init_categories rp ex d [a, b] =
        [TorrentsCreateCategory a (join2 (rp d) a),
         TorrentsCreateCategory b (join2 (rp (join2 (rp d) a)) b)]"
    by (simp add: init_categories_def Let_def path_join_def)
  from n m s t show ?thesis by blast
qed

text \<open>
  With the base directory \<^verbatim>\<open>/dl\<close> and the new categories \<^verbatim>\<open>A\<close> and \<^verbatim>\<open>B\<close>, the
  second directory is \<^verbatim>\<open>/dl/A/B\<close>, not \<^verbatim>\<open>/dl/B\<close>; the existing category
  \<^verbatim>\<open>Old\<close> is passed over.
\<close>

theorem init_categories_nesting_witness:
  "''A'' \<notin> set [''Old''] \<and> ''B'' \<notin> set [''Old''] \<and>
   init_categories realpath_id [''Old''] ''/dl'' [''A'', ''B''] =
     [TorrentsCreateCategory ''A'' ''/dl/A'', TorrentsCreateCategory ''B'' ''/dl/A/B''] \<and>
   map created_name (init_categories realpath_id [''Old''] ''/dl'' [''A'', ''Old'', ''B'']) =
     [''A'', ''B'']"
proof -
  have j1: "join2 (realpath_id ''/dl'') ''A'' = ''/dl/A''" by code_simp
  have j2: "join2 (realpath_id ''/dl/A'') ''B'' = ''/dl/A/B''" by code_simp
  note t = init_categories_nesting [of realpath_id "''/dl''" "[''Old'']"
      "[''A'', ''Old'', ''B'']" "''A''" "''B''"]
  from t have "init_categories realpath_id [''Old''] ''/dl'' [''A'', ''B''] =
      [TorrentsCreateCategory ''A'' (join2 (realpath_id ''/dl'') ''A''),
       TorrentsCreateCategory ''B''
         (join2 (realpath_id (join2 (realpath_id ''/dl'') ''A'')) ''B'')]"
    by simp
  then have a: "init_categories realpath_id [''Old''] ''/dl'' [''A'', ''B''] =
     [TorrentsCreateCategory ''A'' ''/dl/A'', TorrentsCreateCategory ''B'' ''/dl/A/B'']"
    by (simp add: j1 j2)
  from t have b:
    "map created_name (init_categories realpath_id [''Old''] ''/dl'' [''A'', ''Old'', ''B'']) =
     [''A'', ''B'']"
    by simp
  from a b show ?thesis by simp
qed

section \<open>Verification: the claims on \<^verbatim>\<open>ByrApi\<close>\<close>

subsection \<open>C4: the first matching promotion signature\<close>

lemma promotion_loop_first:
  "k < length tab \<Longrightarrow> select_one c (fst (tab ! k)) \<noteq> None \<Longrightarrow>
   (\<forall>j<k. select_one c (fst (tab ! j)) = None) \<Longrightarrow> promotion_loop c tab = snd (tab ! k)"
proof (induction tab arbitrary: k)
  case Nil
  then show ?case by simp
next
  case (Cons e tab)
  obtain s p where e: "e = (s, p)" by (cases e)
  show ?case
  proof (cases k)
    case 0
    with Cons.prems e show ?thesis by simp
  next
    case (Suc k')
    from Cons.prems(3) Suc have "select_one c (fst ((e # tab) ! 0)) = None" by blast
    then have none: "select_one c s = None" using e by simp
    from Cons.prems Suc have "k' < length tab" "select_one c (fst (tab ! k')) \<noteq> None"
      "\<forall>j<k'. select_one c (fst (tab ! j)) = None" by auto
    then have "promotion_loop c tab = snd (tab ! k')" by (rule Cons.IH)
    with none e Suc show ?thesis by simp
  qed
qed

lemma promotion_loop_none:
  "(\<forall>e \<in> set tab. select_one c (fst e) = None) \<Longrightarrow> promotion_loop c tab = []"
  by (induction tab) auto

text \<open>
  Claim C4. For every title cell, \<^verbatim>\<open>_extract_promotion_info\<close> goes through its fixed
  ordered table and returns the promotions of the first entry whose selector finds
  something in the cell, whatever later entries match as well; when no selector of the
  table finds anything, it returns the empty list.
\<close>

theorem extract_promotion_info_first_match:
  "(k < length selectors \<and> select_one c (fst (selectors ! k)) \<noteq> None \<and>
      (\<forall>j<k. select_one c (fst (selectors ! j)) = None)
      \<longrightarrow> extract_promotion_info c = snd (selectors ! k)) \<and>
   ((\<forall>e \<in> set selectors. select_one c (fst e) = None) \<longrightarrow> extract_promotion_info c = [])"
  unfolding extract_promotion_info_def
  using promotion_loop_first [of k selectors c] promotion_loop_none [of selectors c] by blast

text \<open>
  A cell that matches a background class (the second entry of the table) and an icon
  (the thirteenth) gets the promotions of the background class; a cell that matches
  nothing gets none.
\<close>

theorem extract_promotion_info_first_match_witness:
  "select_one two_encodings_cell ''tr.twoup_bg'' \<noteq> None \<and>
   select_one two_encodings_cell ''img.pro_free'' \<noteq> None \<and>
   extract_promotion_info two_encodings_cell = [PROMOTION_TWO_UP] \<and>
   extract_promotion_info (element [] ''Some.Title'' []) = []"
proof -
  have l: "length selectors = 18" by (simp add: selectors_def)
  have k: "selectors ! 1 = (''tr.twoup_bg'', [PROMOTION_TWO_UP])" by (simp add: selectors_def)
  have z: "selectors ! 0 = (''tr.free_bg'', [PROMOTION_FREE])" by (simp add: selectors_def)
  have a: "select_one two_encodings_cell ''tr.twoup_bg'' \<noteq> None"
    "select_one two_encodings_cell ''img.pro_free'' \<noteq> None"
    "select_one two_encodings_cell ''tr.free_bg'' = None"
    by (simp_all add: two_encodings_cell_def element_def select_one_def select_def
        lookup_def first_of_def)
  have b: "\<forall>e \<in> set selectors. select_one (element [] ''Some.Title'' []) (fst e) = None"
    by (simp add: element_def select_one_def select_def lookup_def first_of_def)
  from extract_promotion_info_first_match [of 1 two_encodings_cell] l k z a
  have "extract_promotion_info two_encodings_cell = [PROMOTION_TWO_UP]" by simp
  moreover from extract_promotion_info_first_match [of 0 "element [] ''Some.Title'' []"] b
  have "extract_promotion_info (element [] ''Some.Title'' []) = []" by blast
  ultimately show ?thesis using a by simp
qed

subsection \<open>C5: a row that cannot be extracted\<close>

lemma extract_rows_Inr:
  "(extract_rows env rows acc = Inr ts) =
     (\<exists>new. ts = acc @ new \<and> list_all2 (\<lambda>r t. extract_row env r = Inr t) rows new)"
proof (induction rows arbitrary: acc)
  case Nil
  then show ?case by auto
next
  case (Cons r rows)
  show ?case
  proof (cases "extract_row env r")
    case (Inl e)
    then show ?thesis by (auto simp: list_all2_Cons1)
  next
    case (Inr t)
    then show ?thesis by (auto simp: Cons.IH list_all2_Cons1)
  qed
qed

lemma extract_rows_abort:
  "list_all2 (\<lambda>r t. extract_row env r = Inr t) pre ts \<Longrightarrow> extract_row env r = Inl e \<Longrightarrow>
   extract_rows env (pre @ r # post) acc = Inl e"
proof (induction pre arbitrary: acc ts)
  case Nil
  then show ?case by simp
next
  case (Cons p pre)
  then obtain t ts' where "extract_row env p = Inr t"
    "list_all2 (\<lambda>r t. extract_row env r = Inr t) pre ts'"
    by (auto simp: list_all2_Cons1)
  with Cons.IH [of ts'] Cons.prems(2) show ?case by simp
qed

text \<open>
  What \<^verbatim>\<open>row_requirements\<close> lists is what the extraction of a row needs, no more and
  no less.
\<close>

lemma extract_row_requirements: "succeeds (extract_row env row) = row_requirements env row"
proof
  assume "succeeds (extract_row env row)"
  then obtain t where "extract_row env row = Inr t" by (auto simp: succeeds_Inr)
  then show "row_requirements env row"
    unfolding extract_row_def Let_def and_then_Inr require_Inr item_Inr getitem_Inr
    by (auto simp: row_requirements_def succeeds_Inr)
next
  assume r: "row_requirements env row"
  let ?cells = "find_all row ''td'' False"
  from r have len: "9 \<le> length ?cells" by (simp add: row_requirements_def Let_def)
  from r obtain img cat where img: "select_one (?cells ! 0) ''img'' = Some img"
    "map_of (attrs img) ''title'' = Some cat"
    by (auto simp: row_requirements_def Let_def case_option_False)
  from r obtain span stamp uploaded_at live where st:
    "select_one (?cells ! 3) ''span'' = Some span" "map_of (attrs span) ''title'' = Some stamp"
    "fromisoformat env stamp = Some uploaded_at" "days_since env uploaded_at = Inr live"
    by (auto simp: row_requirements_def Let_def case_option_False succeeds_Inr)
  from r obtain size where size: "convert_byr_size env (stripped_text (?cells ! 4)) = Inr size"
    by (auto simp: row_requirements_def Let_def succeeds_Inr)
  from r obtain user where user: "extract_uploader env (?cells ! 8) = Inr user"
    by (auto simp: row_requirements_def Let_def succeeds_Inr)
  from r obtain link ttl href byr_id td where link:
    "select_one (?cells ! 1) ''table.torrentname td.embedded a[href^=details]'' = Some link"
    "map_of (attrs link) ''title'' = Some ttl" "map_of (attrs link) ''href'' = Some href"
    "extract_url_id env href = Inr byr_id" "find_parent link ''td'' = Some td"
    by (auto simp: row_requirements_def Let_def case_option_False succeeds_Inr)
  from len have it: "\<And>i. i < 9 \<Longrightarrow> item ?cells i = Inr (?cells ! i)" by (simp add: item_def)
  show "succeeds (extract_row env row)"
    unfolding extract_row_def Let_def using img st size user link
    by (simp add: it and_then_def require_def getitem_def succeeds_def)
qed

text \<open>A time stamp that does not parse: the row raises \<^verbatim>\<open>ValueError\<close>.\<close>

lemma extract_row_bad_stamp:
  assumes "4 \<le> length (find_all row ''td'' False)"
    and "select_one (find_all row ''td'' False ! 0) ''img'' = Some img"
    and "map_of (attrs img) ''title'' = Some cat"
    and "select_one (find_all row ''td'' False ! 3) ''span'' = Some span"
    and "map_of (attrs span) ''title'' = Some stamp"
    and "fromisoformat env stamp = None"
  shows "extract_row env row = Inl ValueError"
proof -
  from assms(1) have it:
    "\<And>i. i < 4 \<Longrightarrow> item (find_all row ''td'' False) i = Inr (find_all row ''td'' False ! i)"
    by (simp add: item_def)
  show ?thesis
    unfolding extract_row_def Let_def using assms(2-)
    by (simp add: it and_then_def require_def getitem_def)
qed

lemma rows_with_requirements:
  "list_all (row_requirements env) pre \<Longrightarrow>
   \<exists>ts. list_all2 (\<lambda>r t. extract_row env r = Inr t) pre ts"
proof (induction pre)
  case Nil
  then show ?case by simp
next
  case (Cons p pre)
  then obtain ts where ts: "list_all2 (\<lambda>r t. extract_row env r = Inr t) pre ts" by auto
  from Cons.prems have "succeeds (extract_row env p)" by (simp add: extract_row_requirements)
  then obtain t where "extract_row env p = Inr t" by (auto simp: succeeds_Inr)
  with ts have "list_all2 (\<lambda>r t. extract_row env r = Inr t) (p # pre) (t # ts)" by simp
  then show ?case by blast
qed

text \<open>
  Claim C5, amended. The extraction of a row returns exactly when the row has what
  \<^verbatim>\<open>row_requirements\<close> lists: nine cells, the category icon with its title, the time
  stamp in the title of a span, a time stamp that parses and can be subtracted from the
  current time, a size that converts, an uploader cell that is read, and the title link
  with its title, an \<^verbatim>\<open>href\<close> that holds an id, and a cell around it. When a row lacks
  one of these, for instance when its time stamp does not parse (a \<^verbatim>\<open>ValueError\<close>
  then, if the row has the cells and attributes read before the stamp), the extraction
  of that row raises and the exception leaves \<^verbatim>\<open>_extract_torrent_table\<close>: the call
  ends with the error of the first such row and returns no records, whatever the rows
  before it gave and whatever rows follow. The extractor returns records, one per row
  in page order, exactly when every row is extracted.
\<close>

theorem extract_torrent_table_all_or_nothing:
  "((extract_torrent_table env rows = Inr ts) =
      list_all2 (\<lambda>r t. extract_row env r = Inr t) rows ts) \<and>
   (list_all2 (\<lambda>r t. extract_row env r = Inr t) pre ts' \<and> extract_row env r = Inl e
      \<longrightarrow> extract_torrent_table env (pre @ r # post) = Inl e) \<and>
   (succeeds (extract_row env r) = row_requirements env r) \<and>
   (list_all (row_requirements env) pre' \<and> \<not> row_requirements env r'
      \<longrightarrow> (\<exists>e'. extract_row env r' = Inl e' \<and>
                extract_torrent_table env (pre' @ r' # post') = Inl e')) \<and>
   (4 \<le> length (find_all r'' ''td'' False) \<and>
    select_one (find_all r'' ''td'' False ! 0) ''img'' = Some img \<and>
    map_of (attrs img) ''title'' = Some cat \<and>
    select_one (find_all r'' ''td'' False ! 3) ''span'' = Some span \<and>
    map_of (attrs span) ''title'' = Some stamp \<and>
    fromisoformat env stamp = None
      \<longrightarrow> extract_row env r'' = Inl ValueError)"
proof -
  have 1: "(extract_torrent_table env rows = Inr ts) =
      list_all2 (\<lambda>r t. extract_row env r = Inr t) rows ts"
    by (simp add: extract_torrent_table_def extract_rows_Inr)
  have 2: "list_all2 (\<lambda>r t. extract_row env r = Inr t) pre ts' \<and> extract_row env r = Inl e
      \<longrightarrow> extract_torrent_table env (pre @ r # post) = Inl e"
    using extract_rows_abort [of env pre ts' r e post "[]"]
    by (simp add: extract_torrent_table_def)
  have 4: "list_all (row_requirements env) pre' \<and> \<not> row_requirements env r'
      \<longrightarrow> (\<exists>e'. extract_row env r' = Inl e' \<and>
                extract_torrent_table env (pre' @ r' # post') = Inl e')"
  proof
    assume a: "list_all (row_requirements env) pre' \<and> \<not> row_requirements env r'"
    then obtain ts0 where ts0: "list_all2 (\<lambda>r t. extract_row env r = Inr t) pre' ts0"
      using rows_with_requirements by blast
    from a have "\<not> succeeds (extract_row env r')" by (simp add: extract_row_requirements)
    then obtain e' where e': "extract_row env r' = Inl e'"
      by (cases "extract_row env r'") (simp_all add: succeeds_def)
    from extract_rows_abort [OF ts0 e', of post' "[]"]
    have "extract_torrent_table env (pre' @ r' # post') = Inl e'"
      by (simp add: extract_torrent_table_def)
    with e' show "\<exists>e'. extract_row env r' = Inl e' \<and>
                extract_torrent_table env (pre' @ r' # post') = Inl e'"
      by blast
  qed
  from 1 2 extract_row_requirements [of env r] 4
    extract_row_bad_stamp [of r'' img cat span stamp env]
  show ?thesis by blast
qed

text \<open>
  A page with one good row gives its record. With a second row whose time stamp reads
  \<^verbatim>\<open>yesterday\<close> the page gives the \<^verbatim>\<open>ValueError\<close>; with a second row whose time stamp
  carries a time zone, the \<^verbatim>\<open>TypeError\<close>; with a second row of four cells and no span,
  an error as well, whatever follows.
\<close>

theorem extract_torrent_table_all_or_nothing_witness:
  "extract_row symbolic_env ok_row = Inr ok_record \<and>
   extract_torrent_table symbolic_env [ok_row] = Inr [ok_record] \<and>
   extract_row symbolic_env bad_stamp_row = Inl ValueError \<and>
   extract_torrent_table symbolic_env ([ok_row] @ bad_stamp_row # []) = Inl ValueError \<and>
   extract_row symbolic_env zoned_stamp_row = Inl TypeError \<and>
   extract_torrent_table symbolic_env ([ok_row] @ zoned_stamp_row # [ok_row]) = Inl TypeError \<and>
   row_requirements symbolic_env ok_row \<and>
   \<not> row_requirements symbolic_env no_span_row \<and>
   (\<exists>e. extract_torrent_table symbolic_env ([ok_row] @ no_span_row # [alice_row]) = Inl e)"
proof -
  have a: "extract_row symbolic_env ok_row = Inr ok_record" by code_simp
  have z: "extract_row symbolic_env zoned_stamp_row = Inl TypeError" by code_simp
  from a have l: "list_all2 (\<lambda>r t. extract_row symbolic_env r = Inr t) [ok_row] [ok_record]"
    by simp
  have q: "row_requirements symbolic_env ok_row" by code_simp
  have n: "\<not> row_requirements symbolic_env no_span_row" by code_simp
  have s1: "4 \<le> length (find_all bad_stamp_row ''td'' False)" by code_simp
  have s2: "select_one (find_all bad_stamp_row ''td'' False ! 0) ''img'' =
      Some (element [(''title'', ''Movie'')] [] [])" by code_simp
  have s3: "map_of (attrs (element [(''title'', ''Movie'')] [] [])) ''title'' = Some ''Movie''"
    by code_simp
  have s4: "select_one (find_all bad_stamp_row ''td'' False ! 3) ''span'' =
      Some (element [(''title'', ''yesterday'')] ''1 day'' [])" by code_simp
  have s5: "map_of (attrs (element [(''title'', ''yesterday'')] ''1 day'' [])) ''title'' =
      Some ''yesterday''" by code_simp
  have s6: "fromisoformat symbolic_env ''yesterday'' = None" by code_simp
  note t1 = extract_torrent_table_all_or_nothing
    [of symbolic_env "[ok_row]" "[ok_record]" "[ok_row]" "[ok_record]" bad_stamp_row
      ValueError "[]" "[ok_row]" no_span_row "[alice_row]" bad_stamp_row
      "element [(''title'', ''Movie'')] [] []" "''Movie''"
      "element [(''title'', ''yesterday'')] ''1 day'' []" "''yesterday''"]
  from t1 s1 s2 s3 s4 s5 s6 have b: "extract_row symbolic_env bad_stamp_row = Inl ValueError"
    by blast
  from t1 a l have c: "extract_torrent_table symbolic_env [ok_row] = Inr [ok_record]" by blast
  from t1 l b have d:
    "extract_torrent_table symbolic_env ([ok_row] @ bad_stamp_row # []) = Inl ValueError"
    by blast
  from q have "list_all (row_requirements symbolic_env) [ok_row]" by simp
  with t1 n have e:
    "\<exists>e. extract_torrent_table symbolic_env ([ok_row] @ no_span_row # [alice_row]) = Inl e"
    by blast
  note t2 = extract_torrent_table_all_or_nothing
    [where env = symbolic_env and pre = "[ok_row]" and ts' = "[ok_record]"
      and r = zoned_stamp_row and e = TypeError and post = "[ok_row]"]
  from t2 l z have f:
    "extract_torrent_table symbolic_env ([ok_row] @ zoned_stamp_row # [ok_row]) = Inl TypeError"
    by blast
  from a c b d z f q n e show ?thesis by blast
qed

text \<open>
  The claim as stated promises the records of the other rows alongside the error. A page
  of three rows, the second with a bad time stamp: the first and the third row can be
  extracted, and the page gives the error alone.
\<close>

theorem extract_torrent_table_partial_counterexample:
  "extract_row symbolic_env ok_row = Inr ok_record \<and>
   extract_row symbolic_env alice_row = Inr alice_record \<and>
   extract_torrent_table symbolic_env [ok_row, bad_stamp_row, alice_row] = Inl ValueError"
  by code_simp

subsection \<open>C6: the uploader of a row\<close>

lemma extract_row_uploader:
  assumes "extract_row env row = Inr t"
  shows "\<exists>c8. item (find_all row ''td'' False) 8 = Inr c8 \<and>
              extract_uploader env c8 = Inr (ti_uploader t)"
  using assms unfolding extract_row_def Let_def and_then_Inr by auto

text \<open>
  Claim C6, amended. For every extracted listing row whose uploader cell contains no
  profile link, the uploader of the record is a fresh \<^verbatim>\<open>ByrUser\<close> whose user name is
  the two-character string U+533F U+540D (Chinese for ``anonymous''); its identifier is
  that of a fresh \<^verbatim>\<open>ByrUser\<close>, which is 0 in the data model of the specification. When a
  profile link is present, the identifier is recovered from the \<^verbatim>\<open>id\<close> parameter of the
  link's \<^verbatim>\<open>href\<close> and the name is the link's text.
\<close>

theorem extract_row_uploader_cases:
  assumes "extract_row env row = Inr t"
  shows "case select_one (find_all row ''td'' False ! 8) ''a[href^=userdetails]'' of
        None \<Rightarrow>
          ti_uploader t = (fresh_user env)\<lparr>username := ANONYMOUS\<rparr> \<and>
          user_id (ti_uploader t) = user_id (fresh_user env) \<and>
          username (ti_uploader t) = ANONYMOUS \<and>
          (fresh_user env = new_ByrUser (float_zero env) \<longrightarrow> user_id (ti_uploader t) = 0)
      | Some a \<Rightarrow>
          (\<exists>href. map_of (attrs a) ''href'' = Some href \<and>
                  extract_url_id env href = Inr (user_id (ti_uploader t))) \<and>
          username (ti_uploader t) = stripped_text a"
proof -
  from extract_row_uploader [OF assms] obtain c8 where
    c8: "item (find_all row ''td'' False) 8 = Inr c8" and
    u: "extract_uploader env c8 = Inr (ti_uploader t)" by blast
  from c8 have c: "find_all row ''td'' False ! 8 = c8" by (simp add: item_Inr)
  show ?thesis
  proof (cases "select_one c8 ''a[href^=userdetails]''")
    case None
    with u have "ti_uploader t = (fresh_user env)\<lparr>username := ANONYMOUS\<rparr>"
      by (simp add: extract_uploader_def)
    then show ?thesis using None c by (simp add: new_ByrUser_def)
  next
    case (Some a)
    with u obtain href uid where "map_of (attrs a) ''href'' = Some href"
      "extract_url_id env href = Inr uid"
      "ti_uploader t = (fresh_user env)\<lparr>user_id := uid, username := stripped_text a\<rparr>"
      by (auto simp: extract_uploader_def and_then_Inr getitem_Inr)
    then show ?thesis using Some c by auto
  qed
qed

text \<open>
  Two rows: one whose uploader cell links to the profile of user 42, alice, and one whose
  uploader is hidden.
\<close>

theorem extract_row_uploader_cases_witness:
  "extract_row symbolic_env alice_row = Inr alice_record \<and>
   select_one (find_all alice_row ''td'' False ! 8) ''a[href^=userdetails]'' = Some alice_link \<and>
   map_of (attrs alice_link) ''href'' = Some ''userdetails.php?id=42'' \<and>
   extract_url_id symbolic_env ''userdetails.php?id=42'' = Inr 42 \<and>
   stripped_text alice_link = ''alice'' \<and>
   extract_row symbolic_env ok_row = Inr ok_record \<and>
   select_one (find_all ok_row ''td'' False ! 8) ''a[href^=userdetails]'' = None \<and>
   fresh_user symbolic_env = new_ByrUser (float_zero symbolic_env) \<and>
   user_id (ti_uploader ok_record) = 0 \<and>
   username (ti_uploader ok_record) = ANONYMOUS"
proof -
  have s: "select_one (find_all alice_row ''td'' False ! 8) ''a[href^=userdetails]'' =
      Some alice_link"
    by code_simp
  have e: "extract_row symbolic_env alice_row = Inr alice_record" by code_simp
  have h: "map_of (attrs alice_link) ''href'' = Some ''userdetails.php?id=42''"
    by (simp add: alice_link_def element_def)
  from extract_row_uploader_cases [OF e] s h
  have "extract_url_id symbolic_env ''userdetails.php?id=42'' =
        Inr (user_id (ti_uploader alice_record)) \<and>
      username (ti_uploader alice_record) = stripped_text alice_link"
    by auto
  then have a: "extract_url_id symbolic_env ''userdetails.php?id=42'' = Inr 42 \<and>
      stripped_text alice_link = ''alice''"
    by (simp add: alice_record_def)
  have n: "select_one (find_all ok_row ''td'' False ! 8) ''a[href^=userdetails]'' = None"
    by code_simp
  have o: "extract_row symbolic_env ok_row = Inr ok_record" by code_simp
  have f: "fresh_user symbolic_env = new_ByrUser (float_zero symbolic_env)"
    by (simp add: symbolic_env_def)
  from extract_row_uploader_cases [OF o] n f
  have z: "user_id (ti_uploader ok_record) = 0 \<and> username (ti_uploader ok_record) = ANONYMOUS"
    by simp
  from e s h a o n f z show ?thesis by blast
qed

text \<open>
  The claim as stated gives the hidden uploader the display name \<^verbatim>\<open>anonymous\<close>. The
  source assigns the Chinese word, which is another string.
\<close>

theorem extract_row_anonymous_counterexample:
  "extract_row symbolic_env ok_row = Inr ok_record \<and>
   select_one (find_all ok_row ''td'' False ! 8) ''a[href^=userdetails]'' = None \<and>
   user_id (ti_uploader ok_record) = 0 \<and>
   username (ti_uploader ok_record) = ANONYMOUS \<and>
   username (ti_uploader ok_record) \<noteq> ''anonymous''"
  by code_simp

subsection \<open>C9: the cached identifier of the current user\<close>

lemma current_user_id_cached:
  "cached_user_id st \<noteq> 0 \<Longrightarrow> current_user_id g env st = (Inr (cached_user_id st), st)"
  by (simp add: current_user_id_def)

lemma current_user_id_result:
  assumes "current_user_id g env st = (Inr uid, st')"
  shows "cached_user_id st' = uid \<and> id_fetches st' \<le> Suc (id_fetches st)"
proof (cases "cached_user_id st = 0")
  case False
  with assms show ?thesis by (auto simp: current_user_id_def)
next
  case True
  with assms show ?thesis
    by (auto simp: current_user_id_def Let_def id_fetches_def split: sum.splits)
qed

lemma user_info_cached:
  assumes "cached_user_id st \<noteq> 0"
  shows "cached_user_id (snd (user_info g env st uid0)) = cached_user_id st \<and>
         id_fetches (snd (user_info g env st uid0)) = id_fetches st"
proof -
  define uid where "uid = (if uid0 = 0 then cached_user_id st else uid0)"
  define path where "path = userdetails_path uid"
  define st2 where "st2 = st\<lparr>fetched := fetched st @ [path]\<rparr>"
  have first: "(if uid0 = 0 then current_user_id g env st else (Inr uid0, st)) = (Inr uid, st)"
    using assms by (simp add: uid_def current_user_id_cached)
  have c2: "cached_user_id st2 = cached_user_id st" by (simp add: st2_def)
  have f2: "id_fetches st2 = id_fetches st"
    by (simp add: st2_def id_fetches_def path_def userdetails_path_def)
  have cur: "current_user_id g env st2 = (Inr (cached_user_id st), st2)"
    using assms c2 current_user_id_cached [of st2 g env] by simp
  have ui: "user_info g env st uid0 =
      (case g (length (fetched st)) path of
         Inl e \<Rightarrow> (Inl e, st2)
       | Inr page \<Rightarrow>
           (case user_info_page env page uid of
              Inl e \<Rightarrow> (Inl e, st2)
            | Inr user \<Rightarrow>
                (case current_user_id g env st2 of
                   (Inl e, st3) \<Rightarrow> (Inl e, st3)
                 | (Inr cur, st3) \<Rightarrow>
                     if uid = cur then (extract_info_bar user page, st3)
                     else (Inr user, st3))))"
    unfolding user_info_def first path_def st2_def by (simp add: Let_def)
  have "snd (user_info g env st uid0) = st2"
    unfolding ui cur by (simp split: sum.splits)
  with c2 f2 show ?thesis by simp
qed

lemma api_step_cached:
  assumes "cached_user_id st \<noteq> 0"
  shows "cached_user_id (api_step g env st c) = cached_user_id st \<and>
         id_fetches (api_step g env st c) = id_fetches st"
proof (cases c)
  case CurrentUserId
  with assms show ?thesis by (simp add: current_user_id_cached)
next
  case (UserInfo uid0)
  with user_info_cached [OF assms, of g env uid0] show ?thesis by simp
next
  case ListTorrents
  then show ?thesis by (simp add: list_torrents_def id_fetches_def)
qed

lemma api_run_cached:
  "cached_user_id st \<noteq> 0 \<Longrightarrow>
   cached_user_id (api_run g env st calls) = cached_user_id st \<and>
   id_fetches (api_run g env st calls) = id_fetches st"
proof (induction calls arbitrary: st)
  case Nil
  then show ?case by (simp add: api_run_def)
next
  case (Cons c calls)
  from api_step_cached [OF Cons.prems, of g env c]
  have s: "cached_user_id (api_step g env st c) = cached_user_id st"
    "id_fetches (api_step g env st c) = id_fetches st" by simp_all
  with Cons.prems have "cached_user_id (api_step g env st c) \<noteq> 0" by simp
  from Cons.IH [OF this] s show ?case by (simp add: api_run_def)
qed

text \<open>
  Claim C9. Once \<^verbatim>\<open>current_user_id\<close> has resolved the identifier to a non-zero value
  (which costs at most one fetch of its page), the identifier stays with the
  \<^verbatim>\<open>ByrApi\<close> object: after any sequence of further calls of \<^verbatim>\<open>current_user_id\<close>,
  \<^verbatim>\<open>user_info\<close> and \<^verbatim>\<open>list_torrents\<close> on the object, a call of
  \<^verbatim>\<open>current_user_id\<close> returns the same value and leaves the state as it is, so it
  fetches nothing; the cached value never changes, and the page of the lookup is never
  requested again.
\<close>

theorem current_user_id_cached_forever:
  assumes "current_user_id g env st0 = (Inr uid, st1)" and "uid \<noteq> 0"
  shows "current_user_id g env (api_run g env st1 calls) = (Inr uid, api_run g env st1 calls) \<and>
         cached_user_id (api_run g env st1 calls) = uid \<and>
         id_fetches (api_run g env st1 calls) = id_fetches st1 \<and>
         id_fetches st1 \<le> Suc (id_fetches st0)"
proof -
  from current_user_id_result [OF assms(1)]
  have c: "cached_user_id st1 = uid" and f: "id_fetches st1 \<le> Suc (id_fetches st0)"
    by simp_all
  with assms(2) have nz: "cached_user_id st1 \<noteq> 0" by simp
  from api_run_cached [OF nz, of g env calls] c
  have r: "cached_user_id (api_run g env st1 calls) = uid"
    "id_fetches (api_run g env st1 calls) = id_fetches st1" by simp_all
  with assms(2) have "current_user_id g env (api_run g env st1 calls) =
      (Inr uid, api_run g env st1 calls)"
    using current_user_id_cached [of "api_run g env st1 calls" g env] by simp
  with r f show ?thesis by simp
qed

text \<open>
  On the example site the first lookup fetches the home page and finds the identifier
  42; four calls later the home page has still been fetched once, and the lookup
  answers from the cache.
\<close>

theorem current_user_id_cached_forever_witness:
  "current_user_id demo_site symbolic_env \<lparr>cached_user_id = 0, fetched = []\<rparr> =
     (Inr 42, \<lparr>cached_user_id = 42, fetched = ['''']\<rparr>) \<and> (42::int) \<noteq> 0 \<and>
   api_run demo_site symbolic_env \<lparr>cached_user_id = 42, fetched = ['''']\<rparr>
     [UserInfo 7, CurrentUserId, ListTorrents, UserInfo 0] =
     \<lparr>cached_user_id = 42,
      fetched = ['''', ''userdetails.php?id=7'', ''torrents.php'', ''userdetails.php?id=42'']\<rparr> \<and>
   current_user_id demo_site symbolic_env
     \<lparr>cached_user_id = 42,
      fetched = ['''', ''userdetails.php?id=7'', ''torrents.php'', ''userdetails.php?id=42'']\<rparr> =
     (Inr 42, \<lparr>cached_user_id = 42,
      fetched = ['''', ''userdetails.php?id=7'', ''torrents.php'', ''userdetails.php?id=42'']\<rparr>)"
proof -
  have a: "current_user_id demo_site symbolic_env \<lparr>cached_user_id = 0, fetched = []\<rparr> =
     (Inr 42, \<lparr>cached_user_id = 42, fetched = ['''']\<rparr>)" by code_simp
  have b: "api_run demo_site symbolic_env \<lparr>cached_user_id = 42, fetched = ['''']\<rparr>
     [UserInfo 7, CurrentUserId, ListTorrents, UserInfo 0] =
     \<lparr>cached_user_id = 42,
      fetched = ['''', ''userdetails.php?id=7'', ''torrents.php'', ''userdetails.php?id=42'']\<rparr>"
    by code_simp
  from current_user_id_cached_forever
    [OF a, of "[UserInfo 7, CurrentUserId, ListTorrents, UserInfo 0]"]
  show ?thesis using a b by simp
qed

subsection \<open>C8: the info bar is read for the current user only\<close>

lemma extract_level_bar:
  "info_bar_fields (extract_level u tbl) = info_bar_fields u \<and>
   user_id (extract_level u tbl) = user_id u"
  by (simp add: extract_level_def info_bar_fields_def split: option.splits)

lemma extract_mana_bar:
  "extract_mana env u tbl = Inr v \<Longrightarrow>
   info_bar_fields v = info_bar_fields u \<and> user_id v = user_id u"
  by (auto simp: extract_mana_def info_bar_fields_def and_then_Inr split: option.splits)

lemma extract_invitations_bar:
  "extract_invitations u tbl = Inr v \<Longrightarrow>
   info_bar_fields v = info_bar_fields u \<and> user_id v = user_id u"
  by (auto simp: extract_invitations_def info_bar_fields_def and_then_Inr Let_def
      split: option.splits if_splits)

lemma extract_transfer_cells_bar:
  "extract_transfer_cells env u cells = Inr v \<Longrightarrow>
   info_bar_fields v = info_bar_fields u \<and> user_id v = user_id u"
proof (induction cells arbitrary: u)
  case Nil
  then show ?case by simp
next
  case (Cons cell cells)
  from Cons.prems obtain w where w: "extract_transfer_cells env w cells = Inr v"
    "info_bar_fields w = info_bar_fields u" "user_id w = user_id u"
    by (auto simp: Let_def and_then_Inr info_bar_fields_def split: if_splits prod.splits)
  from Cons.IH [OF w(1)] w(2,3) show ?case by simp
qed

lemma extract_transfer_bar:
  "extract_transfer env u tbl = Inr v \<Longrightarrow>
   info_bar_fields v = info_bar_fields u \<and> user_id v = user_id u"
  by (auto simp: extract_transfer_def dest: extract_transfer_cells_bar split: option.splits)

lemma extract_user_info_bar:
  assumes "extract_user_info env u tbl = Inr v"
  shows "info_bar_fields v = info_bar_fields u \<and> user_id v = user_id u"
proof -
  from assms obtain u1 u2 where
    a: "extract_mana env (extract_level u tbl) tbl = Inr u1"
    and b: "extract_invitations u1 tbl = Inr u2"
    and c: "extract_transfer env u2 tbl = Inr v"
    by (auto simp: extract_user_info_def and_then_Inr)
  from extract_mana_bar [OF a] extract_invitations_bar [OF b] extract_transfer_bar [OF c]
    extract_level_bar [of u tbl]
  show ?thesis by simp
qed

lemma user_info_page_bar:
  assumes "user_info_page env page uid = Inr u"
  shows "info_bar_fields u = info_bar_fields (fresh_user env) \<and> user_id u = uid"
  using extract_user_info_bar [OF assms [unfolded user_info_page_def Let_def]]
  by (simp add: info_bar_fields_def)

lemma int_if_digit_cases: "int_if_digit s f u = Inr v \<Longrightarrow> v = u \<or> (\<exists>n. v = f n)"
  by (auto simp: int_if_digit_def and_then_Inr split: if_splits)

lemma extract_info_bar_frame:
  assumes "extract_info_bar u page = Inr v"
  shows "profile_fields v = profile_fields u"
proof -
  from assms obtain r1 r2 r3 u1 u2 u3 b where
    s1: "int_if_digit r1 (\<lambda>n. u\<lparr>ranking := Some n\<rparr>) u = Inr u1" and
    s2: "int_if_digit r2 (\<lambda>n. u1\<lparr>seeding := n\<rparr>) u1 = Inr u2" and
    s3: "int_if_digit r3 (\<lambda>n. u2\<lparr>downloading := n\<rparr>) u2 = Inr u3" and
    s4: "v = u3\<lparr>connectable := b\<rparr>"
    unfolding extract_info_bar_def Let_def and_then_Inr by blast
  from int_if_digit_cases [OF s1] have "profile_fields u1 = profile_fields u"
    by (auto simp: profile_fields_def)
  moreover from int_if_digit_cases [OF s2] have "profile_fields u2 = profile_fields u1"
    by (auto simp: profile_fields_def)
  moreover from int_if_digit_cases [OF s3] have "profile_fields u3 = profile_fields u2"
    by (auto simp: profile_fields_def)
  moreover from s4 have "profile_fields v = profile_fields u3"
    by (simp add: profile_fields_def)
  ultimately show ?thesis by simp
qed

text \<open>
  Claim C8. When \<^verbatim>\<open>user_info\<close> returns the record of a user who is not the current
  user (the identifier that \<^verbatim>\<open>current_user_id\<close> yields, which is the cached one after
  the call), the record is the one built from the heading and the main table alone:
  \<^verbatim>\<open>_extract_info_bar\<close> was not applied, and ranking, seeding, downloading and
  connectable have the values of a fresh \<^verbatim>\<open>ByrUser\<close>, which are absent, 0, 0 and false in
  the data model of the specification. Where \<^verbatim>\<open>_extract_info_bar\<close> is applied and
  returns, it leaves the identifier, the name and the six fields of the main table as
  they were.
\<close>

theorem user_info_other_user:
  assumes "user_info g env st uid0 = (Inr u, st')" and "user_id u \<noteq> cached_user_id st'"
  shows "info_bar_fields u = info_bar_fields (fresh_user env) \<and>
         (\<exists>page. user_info_page env page (user_id u) = Inr u) \<and>
         (fresh_user env = new_ByrUser (float_zero env) \<longrightarrow>
            ranking u = None \<and> seeding u = 0 \<and> downloading u = 0 \<and> \<not> connectable u) \<and>
         (extract_info_bar v pg = Inr w \<longrightarrow> profile_fields w = profile_fields v)"
proof -
  from assms(1) obtain uid st1 where
    first: "(if uid0 = 0 then current_user_id g env st else (Inr uid0, st)) = (Inr uid, st1)"
    by (auto simp: user_info_def split: prod.splits sum.splits)
  define st2 where "st2 = st1\<lparr>fetched := fetched st1 @ [userdetails_path uid]\<rparr>"
  from assms(1) first obtain page where
    page: "g (length (fetched st1)) (userdetails_path uid) = Inr page"
    by (auto simp: user_info_def Let_def split: sum.splits)
  from assms(1) first page obtain user where user: "user_info_page env page uid = Inr user"
    by (auto simp: user_info_def Let_def split: sum.splits)
  from assms(1) first page user obtain cur where
    cur: "current_user_id g env st2 = (Inr cur, st')"
    and res: "(if uid = cur then extract_info_bar user page else Inr user) = Inr u"
    by (auto simp: user_info_def Let_def st2_def split: sum.splits prod.splits if_splits)
  from current_user_id_result [OF cur] have c: "cached_user_id st' = cur" by simp
  from user_info_page_bar [OF user]
  have ub: "info_bar_fields user = info_bar_fields (fresh_user env)"
    and uu: "user_id user = uid" by simp_all
  have ne: "uid \<noteq> cur"
  proof
    assume e: "uid = cur"
    with res have "extract_info_bar user page = Inr u" by simp
    from extract_info_bar_frame [OF this] have "user_id u = user_id user"
      by (simp add: profile_fields_def)
    with uu e c assms(2) show False by simp
  qed
  with res have eq: "u = user" by simp
  with ub uu user have 1: "info_bar_fields u = info_bar_fields (fresh_user env)"
    and 2: "\<exists>page. user_info_page env page (user_id u) = Inr u" by auto
  from 1 have 3: "fresh_user env = new_ByrUser (float_zero env) \<longrightarrow>
            ranking u = None \<and> seeding u = 0 \<and> downloading u = 0 \<and> \<not> connectable u"
    by (auto simp: info_bar_fields_def new_ByrUser_def)
  have 4: "extract_info_bar v pg = Inr w \<longrightarrow> profile_fields w = profile_fields v"
    using extract_info_bar_frame by blast
  from 1 2 3 4 show ?thesis by blast
qed

text \<open>
  Alice (42) looks at the profile of bob (7). The page carries her info bar, yet bob's
  record keeps the fresh values; applied to the same page, \<^verbatim>\<open>_extract_info_bar\<close> would
  have set them and nothing else.
\<close>

theorem user_info_other_user_witness:
  "user_info demo_site symbolic_env \<lparr>cached_user_id = 42, fetched = ['''']\<rparr> 7 =
     (Inr bob, \<lparr>cached_user_id = 42, fetched = ['''', ''userdetails.php?id=7'']\<rparr>) \<and>
   user_id bob \<noteq> 42 \<and>
   fresh_user symbolic_env = new_ByrUser (float_zero symbolic_env) \<and>
   ranking bob = None \<and> seeding bob = 0 \<and> downloading bob = 0 \<and> \<not> connectable bob \<and>
   extract_info_bar bob (profile_page ''bob'') =
     Inr (bob\<lparr>ranking := Some 1234, seeding := 5, downloading := 1, connectable := True\<rparr>) \<and>
   profile_fields
     (bob\<lparr>ranking := Some 1234, seeding := 5, downloading := 1, connectable := True\<rparr>) =
     profile_fields bob"
proof -
  let ?st = "\<lparr>cached_user_id = 42, fetched = ['''', ''userdetails.php?id=7'']\<rparr>"
  let ?b = "bob\<lparr>ranking := Some 1234, seeding := 5, downloading := 1, connectable := True\<rparr>"
  have r: "user_info demo_site symbolic_env \<lparr>cached_user_id = 42, fetched = ['''']\<rparr> 7 =
     (Inr bob, ?st)"
    by code_simp
  have n: "user_id bob \<noteq> cached_user_id ?st" by (simp add: bob_def)
  have f: "fresh_user symbolic_env = new_ByrUser (float_zero symbolic_env)"
    by (simp add: symbolic_env_def)
  have b: "extract_info_bar bob (profile_page ''bob'') = Inr ?b" by code_simp
  from user_info_other_user [OF r n, of bob "profile_page ''bob''" ?b] f b
  have "ranking bob = None \<and> seeding bob = 0 \<and> downloading bob = 0 \<and> \<not> connectable bob \<and>
      profile_fields ?b = profile_fields bob"
    by blast
  with r n f b show ?thesis by simp
qed

end
